theory Spec2Isabelle
  imports Complex_Main
begin

section \<open>Errors\<close>

text \<open>
  The exceptions the modelled code can raise: \<open>TypeError\<close> from \<^verbatim>\<open>None + "-coxia"\<close>
  (string concatenation on a missing name) and \<open>IndexError\<close> from indexing
  \<^verbatim>\<open>all_points\<close> out of range.
\<close>

datatype error = TypeError | IndexError

section \<open>Points and the object store\<close>

text \<open>
  Modelled from the spec: the class \<^verbatim>\<open>Point\<close> of \<^verbatim>\<open>hexapod/points.py\<close>, which is not among
  the sources; the spec gives its data as \<open>(x, y, z, name)\<close>, and \<^verbatim>\<open>linkage.py\<close> reads and
  writes exactly these attributes.
  A \<^verbatim>\<open>Point\<close> is a mutable Python object with the attributes \<^verbatim>\<open>x, y, z, name\<close>.
  The fields are prefixed with \<open>pt_\<close> (a field called \<open>x\<close> would capture the variable
  name). Python numbers are modelled as mathematical reals; rounding, infinities and NaN
  of floating point are outside the model. A name is a string or \<^verbatim>\<open>None\<close>.
\<close>

record Point =
  pt_x :: real
  pt_y :: real
  pt_z :: real
  pt_name :: "string option"

text \<open>
  Points are shared by reference (\<^verbatim>\<open>ground_contact_point\<close> is one of the objects of
  \<^verbatim>\<open>all_points\<close>, \<^verbatim>\<open>update_point_wrt\<close> mutates in place), so the objects live in an
  explicit store: \<open>cells\<close> maps a reference to the object's current value and \<open>lim\<close> is
  the next unused reference. Creating an object takes the reference \<open>lim\<close>.
\<close>

type_synonym ref = nat

record heap =
  cells :: "ref \<Rightarrow> Point"
  lim :: nat

definition alloc :: "Point \<Rightarrow> heap \<Rightarrow> ref \<times> heap" where
  "alloc p h = (lim h, h\<lparr>cells := (cells h)(lim h := p), lim := Suc (lim h)\<rparr>)"

definition store :: "ref \<Rightarrow> Point \<Rightarrow> heap \<Rightarrow> heap" where
  "store r p h = h\<lparr>cells := (cells h)(r := p)\<rparr>"

section \<open>Frames\<close>

text \<open>
  A frame is a 4x4 array of numbers (a homogeneous transform), given by its four rows.
  \<open>matmul\<close> is \<^verbatim>\<open>numpy.matmul\<close> on two such arrays, \<open>matvec\<close> on an array and a
  4-vector.
\<close>

type_synonym vec4 = "real \<times> real \<times> real \<times> real"
type_synonym frame = "vec4 \<times> vec4 \<times> vec4 \<times> vec4"

fun dot4 :: "vec4 \<Rightarrow> vec4 \<Rightarrow> real" where
  "dot4 (a0, a1, a2, a3) (b0, b1, b2, b3) = a0 * b0 + a1 * b1 + a2 * b2 + a3 * b3"

fun matvec :: "frame \<Rightarrow> vec4 \<Rightarrow> vec4" where
  "matvec (r0, r1, r2, r3) v = (dot4 r0 v, dot4 r1 v, dot4 r2 v, dot4 r3 v)"

fun col :: "frame \<Rightarrow> nat \<Rightarrow> vec4" where
  "col ((a0, a1, a2, a3), (b0, b1, b2, b3), (c0, c1, c2, c3), (d0, d1, d2, d3)) j =
     (if j = 0 then (a0, b0, c0, d0)
      else if j = 1 then (a1, b1, c1, d1)
      else if j = 2 then (a2, b2, c2, d2)
      else (a3, b3, c3, d3))"

fun row_times :: "vec4 \<Rightarrow> frame \<Rightarrow> vec4" where
  "row_times r m = (dot4 r (col m 0), dot4 r (col m 1), dot4 r (col m 2), dot4 r (col m 3))"

fun matmul :: "frame \<Rightarrow> frame \<Rightarrow> frame" where
  "matmul (r0, r1, r2, r3) m = (row_times r0 m, row_times r1 m, row_times r2 m, row_times r3 m)"

subsection \<open>The helpers of \<^verbatim>\<open>hexapod/points.py\<close>\<close>

text \<open>
  \<^verbatim>\<open>hexapod/points.py\<close> (the class \<^verbatim>\<open>Point\<close> with \<^verbatim>\<open>get_point_wrt\<close> and
  \<^verbatim>\<open>update_point_wrt\<close>, and the frame builders \<^verbatim>\<open>frame_yrotate_xtranslate\<close> and
  \<^verbatim>\<open>frame_zrotate_xytranslate\<close>) is imported by \<^verbatim>\<open>linkage.py\<close> but is not among the
  sources. Each helper is modelled from the spec (sections 3 and 4.1), as said at its
  definition.
\<close>

text \<open>
  Modelled from the spec: the unit of the angles handed to the frame builders. The spec
  writes the femur rotation as 90 degrees minus \<open>gamma\<close> and the code passes \<^verbatim>\<open>90 - self.gamma\<close>, so
  angles are in degrees and the builders convert them.
\<close>

definition radians :: "real \<Rightarrow> real" where
  "radians d = d * pi / 180"

text \<open>
  Modelled from the spec: \<^verbatim>\<open>frame_yrotate_xtranslate(theta, x)\<close>, the link transform:
  "rotate about Y by \<open>theta\<close>, then translate along local X by \<open>length\<close>". The sign of
  the rotation is the right-handed one, under which a positive \<open>beta\<close> lifts the femur and
  the tibia of the neutral pose points down, as in the drawing at the head of
  \<^verbatim>\<open>linkage.py\<close>.
\<close>

definition frame_yrotate_xtranslate :: "real \<Rightarrow> real \<Rightarrow> frame" where
  "frame_yrotate_xtranslate theta x =
     (let c = cos (radians theta); s = sin (radians theta)
      in ((c, 0, s, x), (0, 1, 0, 0), (- s, 0, c, 0), (0, 0, 0, 1)))"

text \<open>
  Modelled from the spec: \<^verbatim>\<open>frame_zrotate_xytranslate(theta, x, y)\<close>, the mount transform:
  "rotate about Z by \<open>theta\<close>, then translate in XY by the leg's mount-origin offset".
\<close>

definition frame_zrotate_xytranslate :: "real \<Rightarrow> real \<Rightarrow> real \<Rightarrow> frame" where
  "frame_zrotate_xytranslate theta x y =
     (let c = cos (radians theta); s = sin (radians theta)
      in ((c, - s, 0, x), (s, c, 0, y), (0, 0, 1, 0), (0, 0, 0, 1)))"

text \<open>
  Modelled from the spec: \<^verbatim>\<open>Point.get_point_wrt(frame, name)\<close>: "applies the frame's
  rotation+translation to the point, producing its coordinates in the target frame;
  preserves name unless explicitly renamed". It makes a new Point.
\<close>

definition get_point_wrt :: "Point \<Rightarrow> frame \<Rightarrow> string option \<Rightarrow> Point" where
  "get_point_wrt p reference_frame nm =
     (case matvec reference_frame (pt_x p, pt_y p, pt_z p, 1) of
        (x', y', z', w') \<Rightarrow>
          \<lparr>pt_x = x', pt_y = y', pt_z = z',
           pt_name = (case nm of None \<Rightarrow> pt_name p | Some n \<Rightarrow> Some n)\<rparr>)"

text \<open>
  Modelled from the spec: \<^verbatim>\<open>Point.update_point_wrt(frame, height)\<close>: "re-expresses the
  point into a new frame and additionally offsets it by a fixed height; mutates the point
  in place". This is the new value of the object; the caller writes it back to the store.
\<close>

definition update_point_wrt :: "frame \<Rightarrow> real \<Rightarrow> Point \<Rightarrow> Point" where
  "update_point_wrt reference_frame height p =
     (case matvec reference_frame (pt_x p, pt_y p, pt_z p, 1) of
        (x', y', z', w') \<Rightarrow> p\<lparr>pt_x := x', pt_y := y', pt_z := z' + height\<rparr>)"

text \<open>
  Modelled from the spec: \<^verbatim>\<open>Point(0, 0, 0)\<close>, the constructor called without a name (the
  name is the optional fourth argument, as in \<^verbatim>\<open>Point(1, 2, 3, "a")\<close> of the tests); the
  name is then \<^verbatim>\<open>None\<close>. This is the local origin of \<^verbatim>\<open>change_pose\<close> and the default
  \<^verbatim>\<open>new_origin\<close> of the constructor.
\<close>

definition origin_point :: Point where
  "origin_point = \<lparr>pt_x = 0, pt_y = 0, pt_z = 0, pt_name = None\<rparr>"

section \<open>Linkage (hexapod/linkage.py)\<close>

text \<open>
  The slots of a \<^verbatim>\<open>Linkage\<close>. \<^verbatim>\<open>a, b, c, name, id\<close> are prefixed with \<open>leg_\<close>
  (\<open>id\<close> is a HOL constant, and one-letter field names would capture variables).
  \<^verbatim>\<open>new_origin\<close>, the entries of \<^verbatim>\<open>all_points\<close> and \<^verbatim>\<open>ground_contact_point\<close> are
  references to Point objects.
\<close>

record Linkage =
  leg_a :: real
  leg_b :: real
  leg_c :: real
  alpha :: real
  beta :: real
  gamma :: real
  coxia_axis :: real
  new_origin :: ref
  leg_name :: "string option"
  leg_id :: "nat option"
  all_points :: "ref list"
  ground_contact_point :: ref

subsection \<open>\<^verbatim>\<open>__getattr__\<close> and \<^verbatim>\<open>__setattr__\<close> on \<^verbatim>\<open>p0..p3\<close>\<close>

datatype pkey = P0 | P1 | P2 | P3

fun attr_map :: "pkey \<Rightarrow> nat" where
  "attr_map P0 = 0"
| "attr_map P1 = 1"
| "attr_map P2 = 2"
| "attr_map P3 = 3"

text \<open>\<^verbatim>\<open>self.all_points[attr_map[item]]\<close>; a list that is too short raises IndexError.\<close>

definition getattr_p :: "pkey \<Rightarrow> Linkage \<Rightarrow> error + ref" where
  "getattr_p item l =
     (if attr_map item < length (all_points l) then Inr (all_points l ! attr_map item)
      else Inl IndexError)"

text \<open>\<^verbatim>\<open>self.all_points[attr_map[key]] = value\<close>\<close>

definition setattr_p :: "pkey \<Rightarrow> ref \<Rightarrow> Linkage \<Rightarrow> error + Linkage" where
  "setattr_p key v l =
     (if attr_map key < length (all_points l)
      then Inr (l\<lparr>all_points := (all_points l)[attr_map key := v]\<rparr>)
      else Inl IndexError)"

subsection \<open>Accessors\<close>

definition coxia_angle :: "Linkage \<Rightarrow> real" where
  "coxia_angle l = alpha l"

definition coxia_point :: "Linkage \<Rightarrow> error + ref" where
  "coxia_point l = getattr_p P1 l"

definition femur_point :: "Linkage \<Rightarrow> error + ref" where
  "femur_point l = getattr_p P2 l"

definition foot_tip :: "Linkage \<Rightarrow> error + ref" where
  "foot_tip l = getattr_p P3 l"

definition ground_contact :: "Linkage \<Rightarrow> ref" where
  "ground_contact l = ground_contact_point l"

subsection \<open>\<^verbatim>\<open>compute_ground_contact\<close>\<close>

text \<open>
  The loop \<^verbatim>\<open>for point in reversed(self.all_points)\<close>: \<open>g\<close> is the current
  \<^verbatim>\<open>ground_contact\<close>, replaced only by a point that is strictly lower.
\<close>

fun scan_lowest :: "heap \<Rightarrow> ref \<Rightarrow> ref list \<Rightarrow> ref" where
  "scan_lowest h g [] = g"
| "scan_lowest h g (point # rest) =
     scan_lowest h (if pt_z (cells h point) < pt_z (cells h g) then point else g) rest"

definition compute_ground_contact :: "heap \<Rightarrow> Linkage \<Rightarrow> error + ref" where
  "compute_ground_contact h l =
     (case getattr_p P3 l of
        Inl e \<Rightarrow> Inl e
      | Inr g \<Rightarrow> Inr (scan_lowest h g (rev (all_points l))))"

subsection \<open>\<^verbatim>\<open>change_pose\<close>\<close>

text \<open>
  Lines 129 to 144: the three link frames, their products, and the points "wrt to body
  contact point", computed from the lengths and the stored angles.
\<close>

definition local_points :: "Linkage \<Rightarrow> Point \<times> Point \<times> Point \<times> Point" where
  "local_points l =
     (let frame_01 = frame_yrotate_xtranslate (- beta l) (leg_a l);
          frame_12 = frame_yrotate_xtranslate (90 - gamma l) (leg_b l);
          frame_23 = frame_yrotate_xtranslate 0 (leg_c l);
          frame_02 = matmul frame_01 frame_12;
          frame_03 = matmul frame_02 frame_23;
          p0 = origin_point;
          p1 = get_point_wrt p0 frame_01 None;
          p2 = get_point_wrt p0 frame_02 None;
          p3 = get_point_wrt p0 frame_03 None
      in (p0, p1, p2, p3))"

text \<open>Lines 136 to 138: the frame of the leg's mount, from the stored fields.\<close>

definition new_frame :: "heap \<Rightarrow> Linkage \<Rightarrow> frame" where
  "new_frame h l =
     frame_zrotate_xytranslate (coxia_axis l + alpha l)
       (pt_x (cells h (new_origin l))) (pt_y (cells h (new_origin l)))"

text \<open>
  The whole method, on the store and the Linkage. It returns the outcome (\<open>Inr ()\<close> for a
  normal return, \<open>Inl e\<close> for a raised exception) together with the state it leaves behind:
  an exception leaves the angles already assigned and the objects already created.
  The statements in order: the three angle assignments; the frames and local points
  (pure); \<^verbatim>\<open>deepcopy(self.new_origin)\<close> creates a new object; \<^verbatim>\<open>p0.name += ...\<close>
  raises TypeError on a name that is None; \<^verbatim>\<open>self.name + "-coxia"\<close> raises TypeError
  when the leg's name is None; the three re-expressed points are new objects;
  \<^verbatim>\<open>all_points\<close> is assigned a new list, and then \<^verbatim>\<open>ground_contact_point\<close>.
  The temporaries of lines 141 to 144 never escape and are not put in the store.
\<close>

definition change_pose ::
  "real \<Rightarrow> real \<Rightarrow> real \<Rightarrow> heap \<times> Linkage \<Rightarrow> (error + unit) \<times> heap \<times> Linkage" where
  "change_pose al be ga s =
     (case s of (h, l0) \<Rightarrow>
      let l = l0\<lparr>alpha := al, beta := be, gamma := ga\<rparr>;
          nf = new_frame h l
      in case local_points l of (q0, q1, q2, q3) \<Rightarrow>
         (case alloc (cells h (new_origin l)) h of (r0, h1) \<Rightarrow>
          (case pt_name (cells h1 r0) of
             None \<Rightarrow> (Inl TypeError, h1, l)
           | Some n0 \<Rightarrow>
             let h2 = store r0 ((cells h1 r0)\<lparr>pt_name := Some (n0 @ ''-body-contact'')\<rparr>) h1
             in (case leg_name l of
                   None \<Rightarrow> (Inl TypeError, h2, l)
                 | Some n \<Rightarrow>
                   (case alloc (get_point_wrt q1 nf (Some (n @ ''-coxia''))) h2 of (r1, h3) \<Rightarrow>
                    case alloc (get_point_wrt q2 nf (Some (n @ ''-femur''))) h3 of (r2, h4) \<Rightarrow>
                    case alloc (get_point_wrt q3 nf (Some (n @ ''-tibia''))) h4 of (r3, h5) \<Rightarrow>
                    let l' = l\<lparr>all_points := [r0, r1, r2, r3]\<rparr>
                    in (case compute_ground_contact h5 l' of
                          Inl e \<Rightarrow> (Inl e, h5, l')
                        | Inr g \<Rightarrow> (Inr (), h5, l'\<lparr>ground_contact_point := g\<rparr>)))))))"

subsection \<open>\<^verbatim>\<open>__init__\<close>\<close>

text \<open>
  The constructor assigns \<^verbatim>\<open>a, b, c, new_origin, coxia_axis, id, name\<close> and calls
  \<^verbatim>\<open>change_pose\<close>. Until then the slots \<^verbatim>\<open>alpha, beta, gamma, all_points,
  ground_contact_point\<close> are unset; the record needs some value there (\<open>0\<close>, \<open>[]\<close>), which
  nothing reads: \<^verbatim>\<open>change_pose\<close> assigns all five before using them, and when it raises
  the constructor raises too and no Linkage exists.
\<close>

definition Linkage_init ::
  "real \<Rightarrow> real \<Rightarrow> real \<Rightarrow> real \<Rightarrow> real \<Rightarrow> real \<Rightarrow> real \<Rightarrow> ref \<Rightarrow> string option \<Rightarrow> nat option
     \<Rightarrow> heap \<Rightarrow> (error + Linkage) \<times> heap" where
  "Linkage_init a b c al be ga axis origin nm id_number h =
     (let self = \<lparr>leg_a = a, leg_b = b, leg_c = c, alpha = 0, beta = 0, gamma = 0,
                  coxia_axis = axis, new_origin = origin, leg_name = nm, leg_id = id_number,
                  all_points = [], ground_contact_point = 0\<rparr>
      in case change_pose al be ga (h, self) of
           (Inl e, h', l') \<Rightarrow> (Inl e, h')
         | (Inr u, h', l') \<Rightarrow> (Inr l', h'))"

subsection \<open>\<^verbatim>\<open>update_leg_wrt\<close>\<close>

text \<open>
  \<^verbatim>\<open>for point in self.all_points: point.update_point_wrt(frame, height)\<close>: each entry
  of the list, in order, has its object mutated in the store.
\<close>

fun update_points :: "frame \<Rightarrow> real \<Rightarrow> ref list \<Rightarrow> heap \<Rightarrow> heap" where
  "update_points fr height [] h = h"
| "update_points fr height (point # rest) h =
     update_points fr height rest (store point (update_point_wrt fr height (cells h point)) h)"

definition update_leg_wrt :: "frame \<Rightarrow> real \<Rightarrow> heap \<times> Linkage \<Rightarrow> heap \<times> Linkage" where
  "update_leg_wrt fr height s = (case s of (h, l) \<Rightarrow> (update_points fr height (all_points l) h, l))"

section \<open>Observations, the spec's formulations, and example states\<close>

text \<open>
  The invariant the spec states for the ground contact: \<^verbatim>\<open>ground_contact_point\<close> is one
  of the stored point objects and no stored point is lower.
\<close>

definition ground_contact_ok :: "heap \<times> Linkage \<Rightarrow> bool" where
  "ground_contact_ok s =
     (case s of (h, l) \<Rightarrow>
        ground_contact_point l \<in> set (all_points l) \<and>
        (\<forall>r \<in> set (all_points l).
           pt_z (cells h (ground_contact_point l)) \<le> pt_z (cells h r)))"

text \<open>
  What an observer of a Linkage can read: the scalar slots, the value of the mount origin,
  the values of the stored points in order, the value of the ground contact, and which
  entries of \<^verbatim>\<open>all_points\<close> are the ground-contact object itself.
\<close>

definition view ::
  "heap \<times> Linkage \<Rightarrow>
     (real \<times> real \<times> real) \<times> (real \<times> real \<times> real) \<times> real \<times> string option \<times> nat option \<times>
     Point \<times> Point list \<times> Point \<times> bool list" where
  "view s =
     (case s of (h, l) \<Rightarrow>
        ((leg_a l, leg_b l, leg_c l), (alpha l, beta l, gamma l), coxia_axis l, leg_name l,
         leg_id l, cells h (new_origin l), map (cells h) (all_points l),
         cells h (ground_contact_point l),
         map (\<lambda>r. r = ground_contact_point l) (all_points l)))"

text \<open>Every reference held by the Linkage is to an object that exists in the store.\<close>

definition refs_valid :: "heap \<times> Linkage \<Rightarrow> bool" where
  "refs_valid s =
     (case s of (h, l) \<Rightarrow>
        new_origin l < lim h \<and> ground_contact_point l < lim h \<and>
        list_all (\<lambda>r. r < lim h) (all_points l))"

text \<open>The coordinates of a point, without its name.\<close>

definition coords :: "Point \<Rightarrow> real \<times> real \<times> real" where
  "coords p = (pt_x p, pt_y p, pt_z p)"

text \<open>
  The spec's wording of steps 1 to 5 of the forward kinematics, with "chaining" read as
  applying the link transforms one after the other to the local origin, innermost link
  first: \<open>p2\<close> is the origin of link 2 seen through link 1, and so on.
\<close>

definition spec_local_points ::
  "real \<Rightarrow> real \<Rightarrow> real \<Rightarrow> real \<Rightarrow> real \<Rightarrow> Point \<times> Point \<times> Point \<times> Point" where
  "spec_local_points a b c be ga =
     (let link_01 = frame_yrotate_xtranslate (- be) a;
          link_12 = frame_yrotate_xtranslate (90 - ga) b;
          link_23 = frame_yrotate_xtranslate 0 c;
          p0 = origin_point
      in (p0,
          get_point_wrt p0 link_01 None,
          get_point_wrt (get_point_wrt p0 link_12 None) link_01 None,
          get_point_wrt (get_point_wrt (get_point_wrt p0 link_23 None) link_12 None) link_01 None))"

text \<open>A store holding the given objects at the references \<open>0, 1, ...\<close>.\<close>

definition heap_of :: "Point list \<Rightarrow> heap" where
  "heap_of ps =
     \<lparr>cells = (\<lambda>r. if r < length ps then ps ! r else origin_point), lim = length ps\<rparr>"

definition named_origin :: Point where
  "named_origin = \<lparr>pt_x = 0, pt_y = 0, pt_z = 0, pt_name = Some ''o''\<rparr>"

definition raised_origin :: Point where
  "raised_origin = \<lparr>pt_x = 0, pt_y = 0, pt_z = 1, pt_name = Some ''o''\<rparr>"

definition identity_frame :: frame where
  "identity_frame = ((1, 0, 0, 0), (0, 1, 0, 0), (0, 0, 1, 0), (0, 0, 0, 1))"

text \<open>The frame of a half turn about the x axis: it negates \<open>y\<close> and \<open>z\<close>.\<close>

definition half_turn_x :: frame where
  "half_turn_x = ((1, 0, 0, 0), (0, - 1, 0, 0), (0, 0, - 1, 0), (0, 0, 0, 1))"

text \<open>
  \<^verbatim>\<open>Linkage(1, 1, 1, new_origin=Point(0, 0, 0, "o"), name="leg")\<close>: the leg in its
  neutral pose, and the store after its construction.
\<close>

definition example_leg :: Linkage where
  "example_leg =
     projr (fst (Linkage_init 1 1 1 0 0 0 0 0 (Some ''leg'') None (heap_of [named_origin])))"

definition example_heap :: heap where
  "example_heap = snd (Linkage_init 1 1 1 0 0 0 0 0 (Some ''leg'') None (heap_of [named_origin]))"

text \<open>
  \<^verbatim>\<open>Point(0, 0, -10, "q")\<close>: a point far below the example leg.
\<close>

definition low_point :: Point where
  "low_point = \<lparr>pt_x = 0, pt_y = 0, pt_z = - 10, pt_name = Some ''q''\<rparr>"

text \<open>
  The example leg after \<^verbatim>\<open>change_pose(0, 0, 90)\<close> (the leg stretched out flat), and the
  store after that call.
\<close>

definition flat_leg :: Linkage where
  "flat_leg = snd (snd (change_pose 0 0 90 (example_heap, example_leg)))"

definition flat_heap :: heap where
  "flat_heap = fst (snd (change_pose 0 0 90 (example_heap, example_leg)))"

text \<open>
  \<^verbatim>\<open>Linkage(1, 1, 1, new_origin=Point(0, 0, 1, "o"), name="leg")\<close>: a leg mounted above
  the body plane, and the store after its construction.
\<close>

definition raised_leg :: Linkage where
  "raised_leg =
     projr (fst (Linkage_init 1 1 1 0 0 0 0 0 (Some ''leg'') None (heap_of [raised_origin])))"

definition raised_heap :: heap where
  "raised_heap = snd (Linkage_init 1 1 1 0 0 0 0 0 (Some ''leg'') None (heap_of [raised_origin]))"

text \<open>
  The example leg after \<^verbatim>\<open>leg.p0 = leg.p1\<close>: the coxia point object is stored twice.
\<close>

definition twin_leg :: Linkage where
  "twin_leg = projr (setattr_p P0 (all_points example_leg ! 1) example_leg)"

text \<open>
  The example leg after \<^verbatim>\<open>leg.p0 = leg.new_origin\<close>: the mount origin object itself is
  stored as the body contact.
\<close>

definition origin_leg :: Linkage where
  "origin_leg = projr (setattr_p P0 (new_origin example_leg) example_leg)"

section \<open>Properties of the ground-contact scan\<close>

lemma scan_lowest_mem: "scan_lowest h g rs \<in> set (g # rs)"
  by (induction rs arbitrary: g) auto

lemma scan_lowest_le_start: "pt_z (cells h (scan_lowest h g rs)) \<le> pt_z (cells h g)"
proof (induction rs arbitrary: g)
  case Nil
  show ?case by simp
next
  case (Cons point rest)
  let ?g' = "if pt_z (cells h point) < pt_z (cells h g) then point else g"
  have "pt_z (cells h (scan_lowest h ?g' rest)) \<le> pt_z (cells h ?g')" by (rule Cons.IH)
  also have "\<dots> \<le> pt_z (cells h g)" by simp
  finally show ?case by simp
qed

lemma scan_lowest_le: "r \<in> set rs \<Longrightarrow> pt_z (cells h (scan_lowest h g rs)) \<le> pt_z (cells h r)"
proof (induction rs arbitrary: g)
  case Nil
  then show ?case by simp
next
  case (Cons point rest)
  let ?g' = "if pt_z (cells h point) < pt_z (cells h g) then point else g"
  show ?case
  proof (cases "r = point")
    case True
    have "pt_z (cells h (scan_lowest h ?g' rest)) \<le> pt_z (cells h ?g')"
      by (rule scan_lowest_le_start)
    also have "\<dots> \<le> pt_z (cells h point)" by simp
    finally show ?thesis using True by simp
  next
    case False
    with Cons.prems have "r \<in> set rest" by simp
    then show ?thesis using Cons.IH by simp
  qed
qed

lemma compute_ground_contact_lowest:
  assumes "compute_ground_contact h l = Inr g"
  shows "g \<in> set (all_points l)"
    and "\<forall>r \<in> set (all_points l). pt_z (cells h g) \<le> pt_z (cells h r)"
proof -
  from assms have len: "3 < length (all_points l)"
    and g: "g = scan_lowest h (all_points l ! 3) (rev (all_points l))"
    by (auto simp: compute_ground_contact_def getattr_p_def split: if_splits)
  have "all_points l ! 3 \<in> set (all_points l)" using len by simp
  then show "g \<in> set (all_points l)"
    using scan_lowest_mem [of h "all_points l ! 3" "rev (all_points l)"] g by auto
  show "\<forall>r \<in> set (all_points l). pt_z (cells h g) \<le> pt_z (cells h r)"
    using scan_lowest_le [of _ "rev (all_points l)" h "all_points l ! 3"] g by simp
qed

section \<open>The three outcomes of \<^verbatim>\<open>change_pose\<close>\<close>

lemma change_pose_origin_unnamed:
  assumes "pt_name (cells h (new_origin l0)) = None"
  shows "change_pose al be ga (h, l0) =
    (Inl TypeError, h\<lparr>cells := (cells h)(lim h := cells h (new_origin l0)), lim := Suc (lim h)\<rparr>,
     l0\<lparr>alpha := al, beta := be, gamma := ga\<rparr>)"
  using assms by (simp add: change_pose_def alloc_def Let_def split_def)

lemma change_pose_leg_unnamed:
  assumes "pt_name (cells h (new_origin l0)) = Some n0" and "leg_name l0 = None"
  shows "change_pose al be ga (h, l0) =
    (Inl TypeError,
     h\<lparr>cells := (cells h)(lim h := (cells h (new_origin l0))\<lparr>pt_name := Some (n0 @ ''-body-contact'')\<rparr>),
       lim := Suc (lim h)\<rparr>,
     l0\<lparr>alpha := al, beta := be, gamma := ga\<rparr>)"
  using assms by (simp add: change_pose_def alloc_def store_def Let_def split_def)

lemma change_pose_named:
  assumes "pt_name (cells h (new_origin l0)) = Some n0" and "leg_name l0 = Some n"
    and "l = l0\<lparr>alpha := al, beta := be, gamma := ga\<rparr>"
    and "local_points l = (q0, q1, q2, q3)"
    and "h' = h\<lparr>cells := (cells h)
            (lim h := (cells h (new_origin l0))\<lparr>pt_name := Some (n0 @ ''-body-contact'')\<rparr>,
             Suc (lim h) := get_point_wrt q1 (new_frame h l) (Some (n @ ''-coxia'')),
             Suc (Suc (lim h)) := get_point_wrt q2 (new_frame h l) (Some (n @ ''-femur'')),
             Suc (Suc (Suc (lim h))) := get_point_wrt q3 (new_frame h l) (Some (n @ ''-tibia''))),
           lim := Suc (Suc (Suc (Suc (lim h))))\<rparr>"
    and "rs = [lim h, Suc (lim h), Suc (Suc (lim h)), Suc (Suc (Suc (lim h)))]"
  shows "change_pose al be ga (h, l0) =
    (Inr (), h', l\<lparr>all_points := rs, ground_contact_point := scan_lowest h' (rs ! 3) (rev rs)\<rparr>)"
  unfolding change_pose_def using assms
  by (simp add: alloc_def store_def compute_ground_contact_def getattr_p_def Let_def del: scan_lowest.simps)

text \<open>
  \<^verbatim>\<open>change_pose\<close> returns normally exactly when the leg and its mount origin both carry a
  name; the numbers never make it raise.
\<close>

lemma change_pose_returns_iff:
  "fst (change_pose al be ga (h, l)) = Inr () \<longleftrightarrow>
     leg_name l \<noteq> None \<and> pt_name (cells h (new_origin l)) \<noteq> None"
proof (cases "pt_name (cells h (new_origin l))")
  case None
  then show ?thesis by (simp add: change_pose_origin_unnamed)
next
  case (Some n0)
  note n0 = Some
  show ?thesis
  proof (cases "leg_name l")
    case None
    then show ?thesis by (simp add: change_pose_leg_unnamed [OF n0])
  next
    case (Some n)
    obtain q0 q1 q2 q3 where
      q: "local_points (l\<lparr>alpha := al, beta := be, gamma := ga\<rparr>) = (q0, q1, q2, q3)"
      by (metis prod_cases4)
    show ?thesis
      by (simp add: change_pose_named [OF n0 Some refl q refl refl] n0 Some)
  qed
qed

section \<open>The example leg\<close>

lemma radians_0: "radians 0 = 0"
  by (simp add: radians_def)

lemma radians_90: "radians 90 = pi / 2"
  by (simp add: radians_def)

lemma example_init:
  "Linkage_init 1 1 1 0 0 0 0 0 (Some ''leg'') None (heap_of [named_origin]) =
     (Inr \<lparr>leg_a = 1, leg_b = 1, leg_c = 1, alpha = 0, beta = 0, gamma = 0,
            coxia_axis = 0, new_origin = 0, leg_name = Some ''leg'', leg_id = None,
            all_points = [1, 2, 3, 4], ground_contact_point = 4\<rparr>,
      \<lparr>cells = (cells (heap_of [named_origin]))
         (1 := \<lparr>pt_x = 0, pt_y = 0, pt_z = 0, pt_name = Some ''o-body-contact''\<rparr>,
          2 := \<lparr>pt_x = 1, pt_y = 0, pt_z = 0, pt_name = Some ''leg-coxia''\<rparr>,
          3 := \<lparr>pt_x = 2, pt_y = 0, pt_z = 0, pt_name = Some ''leg-femur''\<rparr>,
          4 := \<lparr>pt_x = 2, pt_y = 0, pt_z = - 1, pt_name = Some ''leg-tibia''\<rparr>),
        lim = 5\<rparr>)"
  by (simp add: Linkage_init_def change_pose_def local_points_def frame_yrotate_xtranslate_def
      radians_0 radians_90 get_point_wrt_def origin_point_def Let_def new_frame_def
      frame_zrotate_xytranslate_def alloc_def store_def heap_of_def named_origin_def
      compute_ground_contact_def getattr_p_def eval_nat_numeral)

lemma example_leg_eq:
  "example_leg =
     \<lparr>leg_a = 1, leg_b = 1, leg_c = 1, alpha = 0, beta = 0, gamma = 0,
      coxia_axis = 0, new_origin = 0, leg_name = Some ''leg'', leg_id = None,
      all_points = [1, 2, 3, 4], ground_contact_point = 4\<rparr>"
  by (simp add: example_leg_def example_init)

lemma example_heap_eq:
  "example_heap =
     \<lparr>cells = (cells (heap_of [named_origin]))
        (1 := \<lparr>pt_x = 0, pt_y = 0, pt_z = 0, pt_name = Some ''o-body-contact''\<rparr>,
         2 := \<lparr>pt_x = 1, pt_y = 0, pt_z = 0, pt_name = Some ''leg-coxia''\<rparr>,
         3 := \<lparr>pt_x = 2, pt_y = 0, pt_z = 0, pt_name = Some ''leg-femur''\<rparr>,
         4 := \<lparr>pt_x = 2, pt_y = 0, pt_z = - 1, pt_name = Some ''leg-tibia''\<rparr>),
       lim = 5\<rparr>"
  by (simp add: example_heap_def example_init)

section \<open>Construction with the default name\<close>

text \<open>
  C4 (the code at the failing input): \<^verbatim>\<open>Linkage(1, 1, 1)\<close>, every other argument left at
  its default, so \<^verbatim>\<open>name=None\<close> and \<^verbatim>\<open>new_origin=Point(0, 0, 0)\<close>. Whatever name the
  default origin point carries, the constructor raises TypeError: either at
  \<^verbatim>\<open>p0.name += "-body-contact"\<close> or at \<^verbatim>\<open>self.name + "-coxia"\<close>.
\<close>

theorem Linkage_init_default_name_raises:
  "fst (Linkage_init 1 1 1 0 0 0 0 0 None None (heap_of [origin_point\<lparr>pt_name := nm\<rparr>]))
     = Inl TypeError"
  by (cases nm)
    (simp_all add: Linkage_init_def change_pose_origin_unnamed change_pose_leg_unnamed
      heap_of_def)

section \<open>The named point fields and the accessors\<close>

text \<open>
  C9: on a Linkage holding four points, assigning \<open>q\<close> to the field \<^verbatim>\<open>p0..p3\<close> named by
  \<open>key\<close> succeeds, and afterwards both the field and the entry of \<^verbatim>\<open>all_points\<close> at its
  index are exactly \<open>q\<close> (the same object). \<^verbatim>\<open>coxia_point\<close>, \<^verbatim>\<open>femur_point\<close>,
  \<^verbatim>\<open>foot_tip\<close> and \<^verbatim>\<open>ground_contact\<close> return \<^verbatim>\<open>p1\<close>, \<^verbatim>\<open>p2\<close>, \<^verbatim>\<open>p3\<close> and
  \<^verbatim>\<open>ground_contact_point\<close>.
\<close>

theorem point_fields_read_back:
  assumes "length (all_points l) = 4"
  shows "(\<exists>l'. setattr_p key q l = Inr l' \<and> getattr_p key l' = Inr q
            \<and> all_points l' ! attr_map key = q)
       \<and> coxia_point l = Inr (all_points l ! 1) \<and> coxia_point l = getattr_p P1 l
       \<and> femur_point l = Inr (all_points l ! 2) \<and> femur_point l = getattr_p P2 l
       \<and> foot_tip l = Inr (all_points l ! 3) \<and> foot_tip l = getattr_p P3 l
       \<and> ground_contact l = ground_contact_point l"
proof -
  have "attr_map key < 4" by (cases key) simp_all
  then show ?thesis using assms
    by (simp add: setattr_p_def getattr_p_def coxia_point_def femur_point_def foot_tip_def
        ground_contact_def)
qed

theorem point_fields_read_back_witness:
  "length (all_points example_leg) = 4
   \<and> (\<exists>l'. setattr_p P2 7 example_leg = Inr l' \<and> getattr_p P2 l' = Inr 7
          \<and> all_points l' ! attr_map P2 = 7)
   \<and> coxia_point example_leg = Inr 2 \<and> femur_point example_leg = Inr 3
   \<and> foot_tip example_leg = Inr 4 \<and> ground_contact example_leg = 4"
proof -
  have len: "length (all_points example_leg) = 4" by (simp add: example_leg_eq)
  show ?thesis
    using len point_fields_read_back [OF len, of P2 7] by (simp add: example_leg_eq)
qed

section \<open>What a successful \<^verbatim>\<open>change_pose\<close> leaves behind\<close>

lemma change_pose_InrE:
  assumes "change_pose al be ga (h, l0) = (Inr u, h', l')"
  obtains n0 n q0 q1 q2 q3 where
    "pt_name (cells h (new_origin l0)) = Some n0" and "leg_name l0 = Some n"
    and "local_points (l0\<lparr>alpha := al, beta := be, gamma := ga\<rparr>) = (q0, q1, q2, q3)"
    and "h' = h\<lparr>cells := (cells h)
            (lim h := (cells h (new_origin l0))\<lparr>pt_name := Some (n0 @ ''-body-contact'')\<rparr>,
             Suc (lim h) := get_point_wrt q1 (new_frame h (l0\<lparr>alpha := al, beta := be, gamma := ga\<rparr>))
                (Some (n @ ''-coxia'')),
             Suc (Suc (lim h)) := get_point_wrt q2 (new_frame h (l0\<lparr>alpha := al, beta := be, gamma := ga\<rparr>))
                (Some (n @ ''-femur'')),
             Suc (Suc (Suc (lim h))) := get_point_wrt q3 (new_frame h (l0\<lparr>alpha := al, beta := be, gamma := ga\<rparr>))
                (Some (n @ ''-tibia''))),
           lim := Suc (Suc (Suc (Suc (lim h))))\<rparr>"
    and "l' = l0\<lparr>alpha := al, beta := be, gamma := ga,
            all_points := [lim h, Suc (lim h), Suc (Suc (lim h)), Suc (Suc (Suc (lim h)))],
            ground_contact_point := scan_lowest h' (Suc (Suc (Suc (lim h))))
               [Suc (Suc (Suc (lim h))), Suc (Suc (lim h)), Suc (lim h), lim h]\<rparr>"
proof -
  obtain n0 where n0: "pt_name (cells h (new_origin l0)) = Some n0"
    using assms change_pose_origin_unnamed [of h l0 al be ga]
    by (cases "pt_name (cells h (new_origin l0))") auto
  obtain n where n: "leg_name l0 = Some n"
    using assms change_pose_leg_unnamed [OF n0, of al be ga]
    by (cases "leg_name l0") auto
  define l where "l = l0\<lparr>alpha := al, beta := be, gamma := ga\<rparr>"
  obtain q0 q1 q2 q3 where q: "local_points l = (q0, q1, q2, q3)"
    by (metis prod_cases4)
  define H where "H = h\<lparr>cells := (cells h)
            (lim h := (cells h (new_origin l0))\<lparr>pt_name := Some (n0 @ ''-body-contact'')\<rparr>,
             Suc (lim h) := get_point_wrt q1 (new_frame h l) (Some (n @ ''-coxia'')),
             Suc (Suc (lim h)) := get_point_wrt q2 (new_frame h l) (Some (n @ ''-femur'')),
             Suc (Suc (Suc (lim h))) := get_point_wrt q3 (new_frame h l) (Some (n @ ''-tibia''))),
           lim := Suc (Suc (Suc (Suc (lim h))))\<rparr>"
  define rs where "rs = [lim h, Suc (lim h), Suc (Suc (lim h)), Suc (Suc (Suc (lim h)))]"
  have "change_pose al be ga (h, l0) =
      (Inr (), H, l\<lparr>all_points := rs, ground_contact_point := scan_lowest H (rs ! 3) (rev rs)\<rparr>)"
    by (rule change_pose_named [OF n0 n l_def q H_def rs_def])
  with assms have h': "h' = H"
    and l': "l' = l\<lparr>all_points := rs, ground_contact_point := scan_lowest H (rs ! 3) (rev rs)\<rparr>"
    by auto
  show thesis
  proof (rule that [OF n0 n])
    show "local_points (l0\<lparr>alpha := al, beta := be, gamma := ga\<rparr>) = (q0, q1, q2, q3)"
      using q by (simp add: l_def)
    show "h' = h\<lparr>cells := (cells h)
            (lim h := (cells h (new_origin l0))\<lparr>pt_name := Some (n0 @ ''-body-contact'')\<rparr>,
             Suc (lim h) := get_point_wrt q1 (new_frame h (l0\<lparr>alpha := al, beta := be, gamma := ga\<rparr>))
                (Some (n @ ''-coxia'')),
             Suc (Suc (lim h)) := get_point_wrt q2 (new_frame h (l0\<lparr>alpha := al, beta := be, gamma := ga\<rparr>))
                (Some (n @ ''-femur'')),
             Suc (Suc (Suc (lim h))) := get_point_wrt q3 (new_frame h (l0\<lparr>alpha := al, beta := be, gamma := ga\<rparr>))
                (Some (n @ ''-tibia''))),
           lim := Suc (Suc (Suc (Suc (lim h))))\<rparr>"
      by (simp add: h' H_def l_def)
    show "l' = l0\<lparr>alpha := al, beta := be, gamma := ga,
            all_points := [lim h, Suc (lim h), Suc (Suc (lim h)), Suc (Suc (Suc (lim h)))],
            ground_contact_point := scan_lowest h' (Suc (Suc (Suc (lim h))))
               [Suc (Suc (Suc (lim h))), Suc (Suc (lim h)), Suc (lim h), lim h]\<rparr>"
      by (simp add: l' h' l_def rs_def del: scan_lowest.simps)
  qed
qed

lemma change_pose_ground_contact:
  assumes "change_pose al be ga (h, l0) = (Inr u, h', l')"
  shows "compute_ground_contact h' l' = Inr (ground_contact_point l')"
    and "length (all_points l') = 4"
  using assms
  by (auto elim!: change_pose_InrE simp add: compute_ground_contact_def getattr_p_def simp del: scan_lowest.simps)

lemma change_pose_ground_contact_ok:
  assumes "change_pose al be ga (h, l0) = (Inr u, h', l')"
  shows "ground_contact_ok (h', l')"
  using compute_ground_contact_lowest [OF change_pose_ground_contact(1) [OF assms]]
  by (simp add: ground_contact_ok_def)

lemma Linkage_init_InrD:
  assumes "Linkage_init a b c al be ga axis origin nm idn h = (Inr l', h')"
  shows "change_pose al be ga
           (h, \<lparr>leg_a = a, leg_b = b, leg_c = c, alpha = 0, beta = 0, gamma = 0,
                coxia_axis = axis, new_origin = origin, leg_name = nm, leg_id = idn,
                all_points = [], ground_contact_point = 0\<rparr>) = (Inr (), h', l')"
  using assms
  by (auto simp add: Linkage_init_def Let_def split: prod.splits sum.splits)

text \<open>
  C1 (as amended): when \<^verbatim>\<open>change_pose\<close> returns normally, and so when the constructor
  does, \<^verbatim>\<open>ground_contact_point\<close> is one of the objects stored in \<^verbatim>\<open>all_points\<close> and no
  stored point has a smaller \<open>z\<close>. \<^verbatim>\<open>update_leg_wrt\<close> leaves \<^verbatim>\<open>ground_contact_point\<close> the
  same object, so if it was one of the stored points it still is.
\<close>

theorem ground_contact_after_pose:
  "(change_pose al be ga (h, l) = (Inr u, h', l') \<longrightarrow> ground_contact_ok (h', l'))
   \<and> (Linkage_init a b c al be ga axis origin nm idn h = (Inr l', h')
        \<longrightarrow> ground_contact_ok (h', l'))
   \<and> (ground_contact_point l \<in> set (all_points l) \<longrightarrow>
        (case update_leg_wrt fr height (h, l) of
           (h2, l2) \<Rightarrow> ground_contact_point l2 = ground_contact_point l
                       \<and> all_points l2 = all_points l
                       \<and> ground_contact_point l2 \<in> set (all_points l2)))"
proof (intro conjI impI)
  assume "change_pose al be ga (h, l) = (Inr u, h', l')"
  then show "ground_contact_ok (h', l')" by (rule change_pose_ground_contact_ok)
next
  assume "Linkage_init a b c al be ga axis origin nm idn h = (Inr l', h')"
  from Linkage_init_InrD [OF this] show "ground_contact_ok (h', l')"
    by (rule change_pose_ground_contact_ok)
next
  assume "ground_contact_point l \<in> set (all_points l)"
  then show "case update_leg_wrt fr height (h, l) of
           (h2, l2) \<Rightarrow> ground_contact_point l2 = ground_contact_point l
                       \<and> all_points l2 = all_points l
                       \<and> ground_contact_point l2 \<in> set (all_points l2)"
    by (simp add: update_leg_wrt_def)
qed

text \<open>
  C1, witness: the example leg is what the constructor and \<^verbatim>\<open>change_pose(0, 0, 0)\<close>
  return, and its ground contact is the foot tip, also after the leg is shifted up by 1.
\<close>

theorem ground_contact_after_pose_witness:
  "Linkage_init 1 1 1 0 0 0 0 0 (Some ''leg'') None (heap_of [named_origin])
     = (Inr example_leg, example_heap)
   \<and> change_pose 0 0 0 (heap_of [named_origin],
        \<lparr>leg_a = 1, leg_b = 1, leg_c = 1, alpha = 0, beta = 0, gamma = 0,
         coxia_axis = 0, new_origin = 0, leg_name = Some ''leg'', leg_id = None,
         all_points = [], ground_contact_point = 0\<rparr>) = (Inr (), example_heap, example_leg)
   \<and> ground_contact_ok (example_heap, example_leg)
   \<and> ground_contact_point example_leg = 4 \<and> all_points example_leg = [1, 2, 3, 4]
   \<and> ground_contact_point example_leg \<in> set (all_points example_leg)
   \<and> (case update_leg_wrt identity_frame 1 (example_heap, example_leg) of
           (h2, l2) \<Rightarrow> ground_contact_point l2 = ground_contact_point example_leg
                       \<and> all_points l2 = all_points example_leg
                       \<and> ground_contact_point l2 \<in> set (all_points l2))"
proof -
  have init: "Linkage_init 1 1 1 0 0 0 0 0 (Some ''leg'') None (heap_of [named_origin])
     = (Inr example_leg, example_heap)"
    by (simp add: example_init example_leg_eq example_heap_eq)
  note pose = Linkage_init_InrD [OF init]
  have mem: "ground_contact_point example_leg \<in> set (all_points example_leg)"
    by (simp add: example_leg_eq)
  have pts: "ground_contact_point example_leg = 4 \<and> all_points example_leg = [1, 2, 3, 4]"
    by (simp add: example_leg_eq)
  show ?thesis
    using init pose mem pts
      ground_contact_after_pose [where al = 0 and be = 0 and ga = 0
        and h = "heap_of [named_origin]" and h' = example_heap and l' = example_leg
        and u = "()" and a = 1 and b = 1 and c = 1 and axis = 0 and origin = 0
        and nm = "Some ''leg''" and idn = None
        and l = "\<lparr>leg_a = 1, leg_b = 1, leg_c = 1, alpha = 0, beta = 0, gamma = 0,
         coxia_axis = 0, new_origin = 0, leg_name = Some ''leg'', leg_id = None,
         all_points = [], ground_contact_point = 0\<rparr>"]
      ground_contact_after_pose [where l = example_leg and h = example_heap
        and fr = identity_frame and height = 1]
    by simp
qed

text \<open>
  C1, counterexample: two states reached from the example leg in which the ground contact
  is wrong. First, create \<^verbatim>\<open>Point(0, 0, -10, "q")\<close> and assign it to \<^verbatim>\<open>p3\<close>:
  \<^verbatim>\<open>__setattr__\<close> replaces the list entry and does not recompute the ground contact, so
  \<^verbatim>\<open>ground_contact_point\<close> is still the old tip object, which is no longer in
  \<^verbatim>\<open>all_points\<close>, and its \<open>z = -1\<close> is above the new \<^verbatim>\<open>p3\<close> at \<open>z = -10\<close>. Second, with
  no assignment at all, \<^verbatim>\<open>update_leg_wrt\<close> with a half turn about the x axis and height 0
  turns the heights \<open>0, 0, 0, -1\<close> into \<open>0, 0, 0, 1\<close>: the ground contact is still the tip
  object, now the highest point.
\<close>

theorem ground_contact_stale_counterexample:
  "fst (Linkage_init 1 1 1 0 0 0 0 0 (Some ''leg'') None (heap_of [named_origin])) = Inr example_leg
   \<and> snd (Linkage_init 1 1 1 0 0 0 0 0 (Some ''leg'') None (heap_of [named_origin])) = example_heap
   \<and> fst (alloc low_point example_heap) = 5
   \<and> setattr_p P3 5 example_leg = Inr (example_leg\<lparr>all_points := [1, 2, 3, 5]\<rparr>)
   \<and> ground_contact_point (example_leg\<lparr>all_points := [1, 2, 3, 5]\<rparr>)
        \<notin> set (all_points (example_leg\<lparr>all_points := [1, 2, 3, 5]\<rparr>))
   \<and> \<not> pt_z (cells (snd (alloc low_point example_heap))
              (ground_contact_point (example_leg\<lparr>all_points := [1, 2, 3, 5]\<rparr>)))
        \<le> pt_z (cells (snd (alloc low_point example_heap)) 5)
   \<and> \<not> ground_contact_ok (snd (alloc low_point example_heap),
                            example_leg\<lparr>all_points := [1, 2, 3, 5]\<rparr>)
   \<and> snd (update_leg_wrt half_turn_x 0 (example_heap, example_leg)) = example_leg
   \<and> map (\<lambda>r. pt_z (cells (fst (update_leg_wrt half_turn_x 0 (example_heap, example_leg))) r))
          (all_points example_leg) = [0, 0, 0, 1]
   \<and> ground_contact_point example_leg = all_points example_leg ! 3
   \<and> \<not> ground_contact_ok (update_leg_wrt half_turn_x 0 (example_heap, example_leg))"
  by (simp add: example_init example_leg_eq example_heap_eq alloc_def setattr_p_def
      ground_contact_ok_def low_point_def update_leg_wrt_def store_def update_point_wrt_def
      half_turn_x_def)

section \<open>Ties in the ground-contact scan\<close>

lemma scan_lowest_four:
  fixes h r0 r1 r2 r3
  defines "z \<equiv> \<lambda>r. pt_z (cells h r)"
  defines "g \<equiv> scan_lowest h r3 [r3, r2, r1, r0]"
  shows "(g = r3 \<and> z r3 \<le> z r2 \<and> z r3 \<le> z r1 \<and> z r3 \<le> z r0)
       \<or> (g = r2 \<and> z r2 < z r3 \<and> z r2 \<le> z r1 \<and> z r2 \<le> z r0)
       \<or> (g = r1 \<and> z r1 < z r3 \<and> z r1 < z r2 \<and> z r1 \<le> z r0)
       \<or> (g = r0 \<and> z r0 < z r3 \<and> z r0 < z r2 \<and> z r0 < z r1)"
  unfolding g_def z_def by (simp; linarith)

lemma all_less_four: "(\<forall>j<4. P (j::nat)) \<longleftrightarrow> P 0 \<and> P 1 \<and> P 2 \<and> P 3"
proof -
  have "{j::nat. j < 4} = {0, 1, 2, 3}" by auto
  then show ?thesis by (metis (no_types, lifting) insert_iff mem_Collect_eq empty_iff)
qed

text \<open>
  C5 (as amended): after a \<^verbatim>\<open>change_pose\<close> that returns normally, the ground contact is
  the stored point \<open>p\<^sub>i\<close> of minimum \<open>z\<close> with the greatest index: every point nearer the
  tip (\<open>j > i\<close>) is strictly higher. Among tied lowest points the scan \<open>p3, p2, p1, p0\<close>
  keeps the one it meets first.
\<close>

theorem ground_contact_tie_toward_tip:
  assumes "change_pose al be ga (h, l) = (Inr u, h', l')"
  shows "\<exists>i<4. ground_contact_point l' = all_points l' ! i
           \<and> (\<forall>j<4. pt_z (cells h' (all_points l' ! i)) \<le> pt_z (cells h' (all_points l' ! j)))
           \<and> (\<forall>j<4. i < j \<longrightarrow>
                 pt_z (cells h' (all_points l' ! i)) < pt_z (cells h' (all_points l' ! j)))"
proof -
  from assms obtain r0 r1 r2 r3 where pts: "all_points l' = [r0, r1, r2, r3]"
    and g: "ground_contact_point l' = scan_lowest h' r3 [r3, r2, r1, r0]"
    by (elim change_pose_InrE) (simp del: scan_lowest.simps)
  let ?z = "\<lambda>r. pt_z (cells h' r)"
  from scan_lowest_four [of h' r3 r2 r1 r0]
  consider
      (tip) "ground_contact_point l' = r3" "?z r3 \<le> ?z r2" "?z r3 \<le> ?z r1" "?z r3 \<le> ?z r0"
    | (femur) "ground_contact_point l' = r2" "?z r2 < ?z r3" "?z r2 \<le> ?z r1" "?z r2 \<le> ?z r0"
    | (coxia) "ground_contact_point l' = r1" "?z r1 < ?z r3" "?z r1 < ?z r2" "?z r1 \<le> ?z r0"
    | (body) "ground_contact_point l' = r0" "?z r0 < ?z r3" "?z r0 < ?z r2" "?z r0 < ?z r1"
    unfolding g by blast
  then show ?thesis
  proof cases
    case tip
    then show ?thesis by (intro exI [of _ 3]) (simp add: pts all_less_four)
  next
    case femur
    then show ?thesis by (intro exI [of _ 2]) (simp add: pts all_less_four)
  next
    case coxia
    then show ?thesis by (intro exI [of _ 1]) (simp add: pts all_less_four)
  next
    case body
    then show ?thesis by (intro exI [of _ 0]) (simp add: pts all_less_four)
  qed
qed

lemma flat_pose:
  "change_pose 0 0 90 (example_heap, example_leg) =
     (Inr (),
      \<lparr>cells = (cells example_heap)
         (5 := \<lparr>pt_x = 0, pt_y = 0, pt_z = 0, pt_name = Some ''o-body-contact''\<rparr>,
          6 := \<lparr>pt_x = 1, pt_y = 0, pt_z = 0, pt_name = Some ''leg-coxia''\<rparr>,
          7 := \<lparr>pt_x = 2, pt_y = 0, pt_z = 0, pt_name = Some ''leg-femur''\<rparr>,
          8 := \<lparr>pt_x = 3, pt_y = 0, pt_z = 0, pt_name = Some ''leg-tibia''\<rparr>),
        lim = 9\<rparr>,
      \<lparr>leg_a = 1, leg_b = 1, leg_c = 1, alpha = 0, beta = 0, gamma = 90,
       coxia_axis = 0, new_origin = 0, leg_name = Some ''leg'', leg_id = None,
       all_points = [5, 6, 7, 8], ground_contact_point = 8\<rparr>)"
  by (simp add: change_pose_def local_points_def frame_yrotate_xtranslate_def
      radians_0 radians_90 get_point_wrt_def origin_point_def Let_def new_frame_def
      frame_zrotate_xytranslate_def alloc_def store_def heap_of_def named_origin_def
      compute_ground_contact_def getattr_p_def eval_nat_numeral example_heap_eq example_leg_eq)

text \<open>
  C5, witness: the flat pose \<^verbatim>\<open>change_pose(0, 0, 90)\<close> of the example leg.
\<close>

theorem ground_contact_tie_toward_tip_witness:
  "change_pose 0 0 90 (example_heap, example_leg) = (Inr (), flat_heap, flat_leg)
   \<and> (\<exists>i<4. ground_contact_point flat_leg = all_points flat_leg ! i
           \<and> (\<forall>j<4. pt_z (cells flat_heap (all_points flat_leg ! i))
                  \<le> pt_z (cells flat_heap (all_points flat_leg ! j)))
           \<and> (\<forall>j<4. i < j \<longrightarrow>
                 pt_z (cells flat_heap (all_points flat_leg ! i))
                   < pt_z (cells flat_heap (all_points flat_leg ! j))))"
proof -
  have pose: "change_pose 0 0 90 (example_heap, example_leg) = (Inr (), flat_heap, flat_leg)"
    by (simp add: flat_leg_def flat_heap_def flat_pose)
  show ?thesis
    using pose ground_contact_tie_toward_tip [OF pose] by simp
qed

text \<open>
  C5, counterexample: in the flat pose all four points have \<open>z = 0\<close>. The ground contact
  is \<^verbatim>\<open>p3\<close>, the first point of the scan order \<open>p3, p2, p1, p0\<close>, and none of the later
  tied points.
\<close>

theorem ground_contact_tie_counterexample:
  "fst (change_pose 0 0 90 (example_heap, example_leg)) = Inr ()
   \<and> map (\<lambda>r. pt_z (cells flat_heap r)) (all_points flat_leg) = [0, 0, 0, 0]
   \<and> ground_contact_point flat_leg = all_points flat_leg ! 3
   \<and> ground_contact_point flat_leg \<noteq> all_points flat_leg ! 2
   \<and> ground_contact_point flat_leg \<noteq> all_points flat_leg ! 1
   \<and> ground_contact_point flat_leg \<noteq> all_points flat_leg ! 0"
  by (simp add: flat_leg_def flat_heap_def flat_pose)

section \<open>The local points of the leg\<close>

lemma get_point_wrt_matmul_link:
  "get_point_wrt p (matmul A (frame_yrotate_xtranslate t x)) None =
     get_point_wrt (get_point_wrt p (frame_yrotate_xtranslate t x) None) A None"
proof -
  obtain a0 a1 a2 a3 b0 b1 b2 b3 c0 c1 c2 c3 d0 d1 d2 d3 where
    A: "A = ((a0, a1, a2, a3), (b0, b1, b2, b3), (c0, c1, c2, c3), (d0, d1, d2, d3))"
    by (metis prod_cases4)
  show ?thesis
    by (simp add: A get_point_wrt_def frame_yrotate_xtranslate_def Let_def algebra_simps)
qed

text \<open>
  The local points as lines 130 to 144 compute them from the stored angles, with the
  frames written out; the matrix products agree with applying the link transforms one
  after the other.
\<close>

lemma local_points_links:
  "local_points (l\<lparr>alpha := al, beta := be, gamma := ga\<rparr>) =
     (origin_point,
      get_point_wrt origin_point (frame_yrotate_xtranslate (- be) (leg_a l)) None,
      get_point_wrt origin_point
        (matmul (frame_yrotate_xtranslate (- be) (leg_a l))
                (frame_yrotate_xtranslate (90 - ga) (leg_b l))) None,
      get_point_wrt origin_point
        (matmul (matmul (frame_yrotate_xtranslate (- be) (leg_a l))
                        (frame_yrotate_xtranslate (90 - ga) (leg_b l)))
                (frame_yrotate_xtranslate 0 (leg_c l))) None)"
  and local_points_spec:
  "local_points (l\<lparr>alpha := al, beta := be, gamma := ga\<rparr>) =
       spec_local_points (leg_a l) (leg_b l) (leg_c l) be ga"
  by (simp_all add: local_points_def spec_local_points_def Let_def get_point_wrt_matmul_link)

lemma get_point_wrt_named:
  "get_point_wrt p fr (Some n) = (get_point_wrt p fr None)\<lparr>pt_name := Some n\<rparr>"
  by (simp add: get_point_wrt_def split: prod.splits)

text \<open>
  C3: a call \<^verbatim>\<open>change_pose(al, be, ga)\<close> that returns normally has stored the three
  angles, and the points it has stored are built from these body-contact-relative points:
  \<open>b0\<close>, the local origin itself; \<open>b1\<close>, the local origin through the link frame with
  Y-rotation \<open>-be\<close> and X-translation \<open>a\<close>; \<open>b2\<close>, the local origin through the product of
  that frame with the link frame \<open>(90 - ga, b)\<close>; \<open>b3\<close>, the local origin through the
  further product with the link frame \<open>(0, c)\<close>. They are the local points of the Linkage
  it leaves, they agree with the spec's chained transforms, and the stored \<^verbatim>\<open>p1\<close>,
  \<^verbatim>\<open>p2\<close>, \<^verbatim>\<open>p3\<close> are \<open>b1\<close>, \<open>b2\<close>, \<open>b3\<close> seen through the mount frame and named after
  the leg.
\<close>

theorem change_pose_link_chain:
  assumes "change_pose al be ga (h, l) = (Inr u, h', l')"
  shows "let link_01 = frame_yrotate_xtranslate (- be) (leg_a l);
             link_12 = frame_yrotate_xtranslate (90 - ga) (leg_b l);
             link_23 = frame_yrotate_xtranslate 0 (leg_c l);
             b0 = origin_point;
             b1 = get_point_wrt b0 link_01 None;
             b2 = get_point_wrt b0 (matmul link_01 link_12) None;
             b3 = get_point_wrt b0 (matmul (matmul link_01 link_12) link_23) None;
             mount = frame_zrotate_xytranslate (coxia_axis l + al)
                       (pt_x (cells h (new_origin l))) (pt_y (cells h (new_origin l)))
         in alpha l' = al \<and> beta l' = be \<and> gamma l' = ga
            \<and> leg_a l' = leg_a l \<and> leg_b l' = leg_b l \<and> leg_c l' = leg_c l
            \<and> local_points l' = (b0, b1, b2, b3)
            \<and> (b0, b1, b2, b3) = spec_local_points (leg_a l) (leg_b l) (leg_c l) be ga
            \<and> length (all_points l') = 4
            \<and> (\<exists>n. leg_name l = Some n
                 \<and> cells h' (all_points l' ! 1)
                      = (get_point_wrt b1 mount None)\<lparr>pt_name := Some (n @ ''-coxia'')\<rparr>
                 \<and> cells h' (all_points l' ! 2)
                      = (get_point_wrt b2 mount None)\<lparr>pt_name := Some (n @ ''-femur'')\<rparr>
                 \<and> cells h' (all_points l' ! 3)
                      = (get_point_wrt b3 mount None)\<lparr>pt_name := Some (n @ ''-tibia'')\<rparr>)"
proof -
  from assms show ?thesis
  proof (rule change_pose_InrE)
    fix n0 n q0 q1 q2 q3
    assume n: "leg_name l = Some n"
      and q: "local_points (l\<lparr>alpha := al, beta := be, gamma := ga\<rparr>) = (q0, q1, q2, q3)"
      and h': "h' = h\<lparr>cells := (cells h)
            (lim h := (cells h (new_origin l))\<lparr>pt_name := Some (n0 @ ''-body-contact'')\<rparr>,
             Suc (lim h) := get_point_wrt q1 (new_frame h (l\<lparr>alpha := al, beta := be, gamma := ga\<rparr>))
                (Some (n @ ''-coxia'')),
             Suc (Suc (lim h)) := get_point_wrt q2 (new_frame h (l\<lparr>alpha := al, beta := be, gamma := ga\<rparr>))
                (Some (n @ ''-femur'')),
             Suc (Suc (Suc (lim h))) := get_point_wrt q3 (new_frame h (l\<lparr>alpha := al, beta := be, gamma := ga\<rparr>))
                (Some (n @ ''-tibia''))),
           lim := Suc (Suc (Suc (Suc (lim h))))\<rparr>"
      and l': "l' = l\<lparr>alpha := al, beta := be, gamma := ga,
            all_points := [lim h, Suc (lim h), Suc (Suc (lim h)), Suc (Suc (Suc (lim h)))],
            ground_contact_point := scan_lowest h' (Suc (Suc (Suc (lim h))))
               [Suc (Suc (Suc (lim h))), Suc (Suc (lim h)), Suc (lim h), lim h]\<rparr>"
    have slots: "alpha l' = al" "beta l' = be" "gamma l' = ga"
      "leg_a l' = leg_a l" "leg_b l' = leg_b l" "leg_c l' = leg_c l"
      by (simp_all add: l')
    have pts: "all_points l' = [lim h, Suc (lim h), Suc (Suc (lim h)), Suc (Suc (Suc (lim h)))]"
      by (simp add: l')
    have same: "local_points l' = local_points (l\<lparr>alpha := al, beta := be, gamma := ga\<rparr>)"
      by (simp add: l' local_points_def)
    note links = local_points_links [where l = l and al = al and be = be and ga = ga]
    from q links have qs: "q0 = origin_point"
      "q1 = get_point_wrt origin_point (frame_yrotate_xtranslate (- be) (leg_a l)) None"
      "q2 = get_point_wrt origin_point
              (matmul (frame_yrotate_xtranslate (- be) (leg_a l))
                      (frame_yrotate_xtranslate (90 - ga) (leg_b l))) None"
      "q3 = get_point_wrt origin_point
              (matmul (matmul (frame_yrotate_xtranslate (- be) (leg_a l))
                              (frame_yrotate_xtranslate (90 - ga) (leg_b l)))
                      (frame_yrotate_xtranslate 0 (leg_c l))) None"
      by simp_all
    have stored: "cells h' (all_points l' ! 1)
          = (get_point_wrt q1 (new_frame h (l\<lparr>alpha := al, beta := be, gamma := ga\<rparr>)) None)
              \<lparr>pt_name := Some (n @ ''-coxia'')\<rparr>"
      "cells h' (all_points l' ! 2)
          = (get_point_wrt q2 (new_frame h (l\<lparr>alpha := al, beta := be, gamma := ga\<rparr>)) None)
              \<lparr>pt_name := Some (n @ ''-femur'')\<rparr>"
      "cells h' (all_points l' ! 3)
          = (get_point_wrt q3 (new_frame h (l\<lparr>alpha := al, beta := be, gamma := ga\<rparr>)) None)
              \<lparr>pt_name := Some (n @ ''-tibia'')\<rparr>"
      by (simp_all add: pts h' get_point_wrt_named [symmetric])
    have mount: "new_frame h (l\<lparr>alpha := al, beta := be, gamma := ga\<rparr>)
        = frame_zrotate_xytranslate (coxia_axis l + al)
            (pt_x (cells h (new_origin l))) (pt_y (cells h (new_origin l)))"
      by (simp add: new_frame_def)
    have spec: "local_points (l\<lparr>alpha := al, beta := be, gamma := ga\<rparr>)
        = spec_local_points (leg_a l) (leg_b l) (leg_c l) be ga"
      by (rule local_points_spec)
    show ?thesis
      unfolding Let_def
      using slots pts same links spec n stored
      by (simp add: qs [symmetric] mount [symmetric] q)
  qed
qed

text \<open>C3, witness: the flat pose of the example leg, whose tip ends at \<open>(3, 0, 0)\<close>.\<close>

theorem change_pose_link_chain_witness:
  "change_pose 0 0 90 (example_heap, example_leg) = (Inr (), flat_heap, flat_leg)
   \<and> coords (cells flat_heap (all_points flat_leg ! 3)) = (3, 0, 0)
   \<and> (let link_01 = frame_yrotate_xtranslate (- 0) (leg_a example_leg);
             link_12 = frame_yrotate_xtranslate (90 - 90) (leg_b example_leg);
             link_23 = frame_yrotate_xtranslate 0 (leg_c example_leg);
             b0 = origin_point;
             b1 = get_point_wrt b0 link_01 None;
             b2 = get_point_wrt b0 (matmul link_01 link_12) None;
             b3 = get_point_wrt b0 (matmul (matmul link_01 link_12) link_23) None;
             mount = frame_zrotate_xytranslate (coxia_axis example_leg + 0)
                       (pt_x (cells example_heap (new_origin example_leg)))
                       (pt_y (cells example_heap (new_origin example_leg)))
         in alpha flat_leg = 0 \<and> beta flat_leg = 0 \<and> gamma flat_leg = 90
            \<and> leg_a flat_leg = leg_a example_leg \<and> leg_b flat_leg = leg_b example_leg
            \<and> leg_c flat_leg = leg_c example_leg
            \<and> local_points flat_leg = (b0, b1, b2, b3)
            \<and> (b0, b1, b2, b3)
                 = spec_local_points (leg_a example_leg) (leg_b example_leg) (leg_c example_leg) 0 90
            \<and> length (all_points flat_leg) = 4
            \<and> (\<exists>n. leg_name example_leg = Some n
                 \<and> cells flat_heap (all_points flat_leg ! 1)
                      = (get_point_wrt b1 mount None)\<lparr>pt_name := Some (n @ ''-coxia'')\<rparr>
                 \<and> cells flat_heap (all_points flat_leg ! 2)
                      = (get_point_wrt b2 mount None)\<lparr>pt_name := Some (n @ ''-femur'')\<rparr>
                 \<and> cells flat_heap (all_points flat_leg ! 3)
                      = (get_point_wrt b3 mount None)\<lparr>pt_name := Some (n @ ''-tibia'')\<rparr>))"
proof -
  have pose: "change_pose 0 0 90 (example_heap, example_leg) = (Inr (), flat_heap, flat_leg)"
    by (simp add: flat_leg_def flat_heap_def flat_pose)
  have tip: "coords (cells flat_heap (all_points flat_leg ! 3)) = (3, 0, 0)"
    by (simp add: flat_leg_def flat_heap_def flat_pose coords_def)
  show ?thesis
    using pose tip change_pose_link_chain [OF pose] by simp
qed

section \<open>The stored points and the mount frame\<close>

lemma local_points_origin: "fst (local_points l) = origin_point"
  by (simp add: local_points_def Let_def)

lemma mount_of_origin:
  "pt_x (get_point_wrt origin_point (frame_zrotate_xytranslate t x y) nm) = x"
  "pt_y (get_point_wrt origin_point (frame_zrotate_xytranslate t x y) nm) = y"
  "pt_z (get_point_wrt origin_point (frame_zrotate_xytranslate t x y) nm) = 0"
  by (simp_all add: get_point_wrt_def frame_zrotate_xytranslate_def origin_point_def Let_def)

text \<open>
  C2 (as amended): after a \<^verbatim>\<open>change_pose\<close> that returns normally, the mount frame is
  built from \<open>coxia_axis + alpha\<close> and the \<open>x\<close>, \<open>y\<close> of \<^verbatim>\<open>new_origin\<close>; the stored
  \<^verbatim>\<open>p1, p2, p3\<close> are the local points re-expressed through it (named after the leg), and
  the stored \<^verbatim>\<open>p0\<close> is a copy of \<^verbatim>\<open>new_origin\<close> with its name extended. The local origin
  through the mount frame has the \<open>x\<close> and \<open>y\<close> of \<^verbatim>\<open>new_origin\<close> and \<open>z = 0\<close>, while
  \<^verbatim>\<open>p0\<close> keeps the \<open>z\<close> of \<^verbatim>\<open>new_origin\<close>.
\<close>

theorem stored_points_through_mount:
  assumes "change_pose al be ga (h, l) = (Inr u, h', l')"
  shows "leg_name l \<noteq> None \<and> pt_name (cells h (new_origin l)) \<noteq> None
       \<and> (case local_points (l\<lparr>alpha := al, beta := be, gamma := ga\<rparr>) of
            (q0, q1, q2, q3) \<Rightarrow>
              let mount = frame_zrotate_xytranslate (coxia_axis l + al)
                            (pt_x (cells h (new_origin l))) (pt_y (cells h (new_origin l)))
              in map (cells h') (all_points l') =
                   [(cells h (new_origin l))
                      \<lparr>pt_name := map_option (\<lambda>n0. n0 @ ''-body-contact'')
                                    (pt_name (cells h (new_origin l)))\<rparr>,
                    get_point_wrt q1 mount (map_option (\<lambda>n. n @ ''-coxia'') (leg_name l)),
                    get_point_wrt q2 mount (map_option (\<lambda>n. n @ ''-femur'') (leg_name l)),
                    get_point_wrt q3 mount (map_option (\<lambda>n. n @ ''-tibia'') (leg_name l))]
                 \<and> coords (get_point_wrt q0 mount None)
                     = (pt_x (cells h (new_origin l)), pt_y (cells h (new_origin l)), 0)
                 \<and> coords (cells h' (all_points l' ! 0)) = coords (cells h (new_origin l)))"
proof -
  from assms show ?thesis
  proof (rule change_pose_InrE)
    fix n0 n q0 q1 q2 q3
    assume n0: "pt_name (cells h (new_origin l)) = Some n0" and n: "leg_name l = Some n"
      and q: "local_points (l\<lparr>alpha := al, beta := be, gamma := ga\<rparr>) = (q0, q1, q2, q3)"
      and h': "h' = h\<lparr>cells := (cells h)
            (lim h := (cells h (new_origin l))\<lparr>pt_name := Some (n0 @ ''-body-contact'')\<rparr>,
             Suc (lim h) := get_point_wrt q1 (new_frame h (l\<lparr>alpha := al, beta := be, gamma := ga\<rparr>))
                (Some (n @ ''-coxia'')),
             Suc (Suc (lim h)) := get_point_wrt q2 (new_frame h (l\<lparr>alpha := al, beta := be, gamma := ga\<rparr>))
                (Some (n @ ''-femur'')),
             Suc (Suc (Suc (lim h))) := get_point_wrt q3 (new_frame h (l\<lparr>alpha := al, beta := be, gamma := ga\<rparr>))
                (Some (n @ ''-tibia''))),
           lim := Suc (Suc (Suc (Suc (lim h))))\<rparr>"
      and l': "l' = l\<lparr>alpha := al, beta := be, gamma := ga,
            all_points := [lim h, Suc (lim h), Suc (Suc (lim h)), Suc (Suc (Suc (lim h)))],
            ground_contact_point := scan_lowest h' (Suc (Suc (Suc (lim h))))
               [Suc (Suc (Suc (lim h))), Suc (Suc (lim h)), Suc (lim h), lim h]\<rparr>"
    have q0: "q0 = origin_point"
      using local_points_origin [of "l\<lparr>alpha := al, beta := be, gamma := ga\<rparr>"] q by simp
    have pts: "all_points l' = [lim h, Suc (lim h), Suc (Suc (lim h)), Suc (Suc (Suc (lim h)))]"
      by (simp add: l')
    show ?thesis
      by (simp add: q n0 n pts h' new_frame_def Let_def q0 mount_of_origin coords_def)
  qed
qed

lemma raised_init:
  "Linkage_init 1 1 1 0 0 0 0 0 (Some ''leg'') None (heap_of [raised_origin]) =
     (Inr \<lparr>leg_a = 1, leg_b = 1, leg_c = 1, alpha = 0, beta = 0, gamma = 0,
            coxia_axis = 0, new_origin = 0, leg_name = Some ''leg'', leg_id = None,
            all_points = [1, 2, 3, 4], ground_contact_point = 4\<rparr>,
      \<lparr>cells = (cells (heap_of [raised_origin]))
         (1 := \<lparr>pt_x = 0, pt_y = 0, pt_z = 1, pt_name = Some ''o-body-contact''\<rparr>,
          2 := \<lparr>pt_x = 1, pt_y = 0, pt_z = 0, pt_name = Some ''leg-coxia''\<rparr>,
          3 := \<lparr>pt_x = 2, pt_y = 0, pt_z = 0, pt_name = Some ''leg-femur''\<rparr>,
          4 := \<lparr>pt_x = 2, pt_y = 0, pt_z = - 1, pt_name = Some ''leg-tibia''\<rparr>),
        lim = 5\<rparr>)"
  by (simp add: Linkage_init_def change_pose_def local_points_def frame_yrotate_xtranslate_def
      radians_0 radians_90 get_point_wrt_def origin_point_def Let_def new_frame_def
      frame_zrotate_xytranslate_def alloc_def store_def heap_of_def raised_origin_def
      compute_ground_contact_def getattr_p_def eval_nat_numeral)

text \<open>
  C2, counterexample: for the leg mounted at \<open>(0, 0, 1)\<close> the stored \<^verbatim>\<open>p0\<close> is at
  \<open>(0, 0, 1)\<close>, but the local origin re-expressed through the mount frame is at
  \<open>(0, 0, 0)\<close>: the mount frame translates in \<open>x\<close> and \<open>y\<close> only. Indeed this leg and
  the example leg, mounted at \<open>(0, 0, 0)\<close>, have the same mount frame and the same local
  points, and different stored \<^verbatim>\<open>p0\<close>.
\<close>

theorem body_contact_not_through_mount_counterexample:
  "fst (Linkage_init 1 1 1 0 0 0 0 0 (Some ''leg'') None (heap_of [raised_origin]))
     = Inr raised_leg
   \<and> coords (cells raised_heap (all_points raised_leg ! 0)) = (0, 0, 1)
   \<and> coords (get_point_wrt (fst (local_points raised_leg)) (new_frame raised_heap raised_leg) None)
       = (0, 0, 0)
   \<and> coords (cells raised_heap (all_points raised_leg ! 0))
       \<noteq> coords (get_point_wrt (fst (local_points raised_leg))
                  (new_frame raised_heap raised_leg) None)
   \<and> new_frame raised_heap raised_leg = new_frame example_heap example_leg
   \<and> local_points raised_leg = local_points example_leg
   \<and> coords (cells raised_heap (all_points raised_leg ! 0))
       \<noteq> coords (cells example_heap (all_points example_leg ! 0))"
  unfolding raised_leg_def raised_heap_def raised_init example_leg_eq example_heap_eq
  by (simp add: local_points_origin new_frame_def mount_of_origin coords_def heap_of_def
      raised_origin_def named_origin_def)

text \<open>
  C2, witness: the flat pose of the example leg.
\<close>

theorem stored_points_through_mount_witness:
  "change_pose 0 0 90 (example_heap, example_leg) = (Inr (), flat_heap, flat_leg)
   \<and> leg_name example_leg \<noteq> None \<and> pt_name (cells example_heap (new_origin example_leg)) \<noteq> None
   \<and> map (\<lambda>r. coords (cells flat_heap r)) (all_points flat_leg)
        = [(0, 0, 0), (1, 0, 0), (2, 0, 0), (3, 0, 0)]
   \<and> (case local_points (example_leg\<lparr>alpha := 0, beta := 0, gamma := 90\<rparr>) of
            (q0, q1, q2, q3) \<Rightarrow>
              let mount = frame_zrotate_xytranslate (coxia_axis example_leg + 0)
                            (pt_x (cells example_heap (new_origin example_leg)))
                            (pt_y (cells example_heap (new_origin example_leg)))
              in map (cells flat_heap) (all_points flat_leg) =
                   [(cells example_heap (new_origin example_leg))
                      \<lparr>pt_name := map_option (\<lambda>n0. n0 @ ''-body-contact'')
                                    (pt_name (cells example_heap (new_origin example_leg)))\<rparr>,
                    get_point_wrt q1 mount (map_option (\<lambda>n. n @ ''-coxia'') (leg_name example_leg)),
                    get_point_wrt q2 mount (map_option (\<lambda>n. n @ ''-femur'') (leg_name example_leg)),
                    get_point_wrt q3 mount (map_option (\<lambda>n. n @ ''-tibia'') (leg_name example_leg))]
                 \<and> coords (get_point_wrt q0 mount None)
                     = (pt_x (cells example_heap (new_origin example_leg)),
                        pt_y (cells example_heap (new_origin example_leg)), 0)
                 \<and> coords (cells flat_heap (all_points flat_leg ! 0))
                     = coords (cells example_heap (new_origin example_leg)))"
proof -
  have pose: "change_pose 0 0 90 (example_heap, example_leg) = (Inr (), flat_heap, flat_leg)"
    by (simp add: flat_leg_def flat_heap_def flat_pose)
  have vals: "map (\<lambda>r. coords (cells flat_heap r)) (all_points flat_leg)
        = [(0, 0, 0), (1, 0, 0), (2, 0, 0), (3, 0, 0)]"
    by (simp add: flat_leg_def flat_heap_def flat_pose coords_def)
  show ?thesis
    using pose vals stored_points_through_mount [OF pose] by simp
qed

section \<open>The neutral pose\<close>

text \<open>
  C6 (the code at the failing input): \<^verbatim>\<open>Linkage(a, b, c, name=nm)\<close> with \<^verbatim>\<open>new_origin\<close> left
  at its default \<^verbatim>\<open>Point(0, 0, 0)\<close>, \<^verbatim>\<open>coxia_axis = 0\<close> and the default zero angles. The
  default origin carries no name, so \<^verbatim>\<open>p0.name += "-body-contact"\<close> raises TypeError
  for every choice of lengths and of the leg's name: no points are computed.
\<close>

theorem Linkage_init_default_origin_raises:
  "fst (Linkage_init a b c 0 0 0 0 0 nm id_number (heap_of [origin_point])) = Inl TypeError"
proof -
  have "pt_name (cells (heap_of [origin_point]) 0) = None"
    by (simp add: heap_of_def origin_point_def)
  then show ?thesis
    by (simp add: Linkage_init_def change_pose_origin_unnamed)
qed

text \<open>
  Where the constructor does return, the neutral pose is the one drawn at the head of
  \<^verbatim>\<open>linkage.py\<close>: a leg constructed with all angles zero, \<open>coxia_axis = 0\<close>, a name, and a
  named mount origin at \<open>(0, 0, 0)\<close> has its points at \<open>(0,0,0)\<close>, \<open>(a,0,0)\<close>,
  \<open>(a+b,0,0)\<close> and \<open>(a+b,0,-c)\<close>.
\<close>

lemma neutral_pose_points:
  assumes "coords (cells h origin) = (0, 0, 0)" and "pt_name (cells h origin) = Some n0"
  shows "\<exists>l h'. Linkage_init a b c 0 0 0 0 origin (Some n) idn h = (Inr l, h')
           \<and> map (\<lambda>r. coords (cells h' r)) (all_points l)
               = [(0, 0, 0), (a, 0, 0), (a + b, 0, 0), (a + b, 0, - c)]"
proof -
  let ?self = "\<lparr>leg_a = a, leg_b = b, leg_c = c, alpha = 0, beta = 0, gamma = 0,
                coxia_axis = 0, new_origin = origin, leg_name = Some n, leg_id = idn,
                all_points = [], ground_contact_point = 0\<rparr>"
  have lp: "local_points (?self\<lparr>alpha := 0, beta := 0, gamma := 0\<rparr>) =
      (origin_point, origin_point\<lparr>pt_x := a\<rparr>, origin_point\<lparr>pt_x := a + b\<rparr>,
       origin_point\<lparr>pt_x := a + b, pt_z := - c\<rparr>)"
    by (simp add: local_points_def Let_def frame_yrotate_xtranslate_def radians_0 radians_90
        get_point_wrt_def origin_point_def)
  from assms have xy: "pt_x (cells h origin) = 0" "pt_y (cells h origin) = 0" "pt_z (cells h origin) = 0"
    by (simp_all add: coords_def)
  have n0: "pt_name (cells h (new_origin ?self)) = Some n0"
    using assms(2) by simp
  have nm: "leg_name ?self = Some n"
    by simp
  note pose = change_pose_named [OF n0 nm refl lp refl refl]
  show ?thesis
    unfolding Linkage_init_def Let_def
    by (simp add: pose coords_def xy new_frame_def frame_zrotate_xytranslate_def radians_0
        get_point_wrt_def origin_point_def Let_def del: scan_lowest.simps)
qed

text \<open>The same at \<open>a = b = c = 1\<close>: the example leg.\<close>

lemma neutral_pose_points_example:
  "coords (cells (heap_of [named_origin]) 0) = (0, 0, 0)
   \<and> pt_name (cells (heap_of [named_origin]) 0) = Some ''o''
   \<and> (\<exists>l h'. Linkage_init 1 1 1 0 0 0 0 0 (Some ''leg'') None (heap_of [named_origin]) = (Inr l, h')
           \<and> map (\<lambda>r. coords (cells h' r)) (all_points l)
               = [(0, 0, 0), (1, 0, 0), (1 + 1, 0, 0), (1 + 1, 0, - 1)])"
proof -
  have c: "coords (cells (heap_of [named_origin]) 0) = (0, 0, 0)"
    by (simp add: heap_of_def named_origin_def coords_def)
  have n: "pt_name (cells (heap_of [named_origin]) 0) = Some ''o''"
    by (simp add: heap_of_def named_origin_def)
  show ?thesis
    using c n neutral_pose_points [OF c n, of 1 1 1 "''leg''" None] by simp
qed

section \<open>What \<^verbatim>\<open>change_pose\<close> leaves unchanged, and calling it twice\<close>

lemma view_extend:
  assumes "refs_valid (h, l)" and "\<forall>r<lim h. cells h' r = cells h r"
  shows "view (h', l) = view (h, l)"
  using assms by (simp add: view_def refs_valid_def list_all_iff)

lemma refs_valid_extend:
  assumes "refs_valid (h, l)" and "lim h \<le> lim h'"
  shows "refs_valid (h', l\<lparr>alpha := al, beta := be, gamma := ga\<rparr>)"
  using assms by (auto simp add: refs_valid_def list_all_iff)

lemma scan_lowest_shift:
  assumes "\<forall>r \<in> set (g # rs). pt_z (cells h2 (f r)) = pt_z (cells h1 r)"
  shows "scan_lowest h2 (f g) (map f rs) = f (scan_lowest h1 g rs)"
  using assms
proof (induction rs arbitrary: g)
  case Nil
  show ?case by simp
next
  case (Cons point rest)
  let ?g' = "if pt_z (cells h1 point) < pt_z (cells h1 g) then point else g"
  have "scan_lowest h2 (f ?g') (map f rest) = f (scan_lowest h1 ?g' rest)"
    by (rule Cons.IH) (use Cons.prems in auto)
  moreover have "(if pt_z (cells h2 (f point)) < pt_z (cells h2 (f g)) then f point else f g) = f ?g'"
    using Cons.prems by simp
  ultimately show ?case by simp
qed

lemma local_points_angles:
  "local_points (l\<lparr>all_points := rs, ground_contact_point := g\<rparr>) = local_points l"
  by (simp add: local_points_def)

text \<open>
  C10: whatever its outcome, \<^verbatim>\<open>change_pose\<close> changes no slot of the Linkage other than
  \<^verbatim>\<open>alpha, beta, gamma, all_points, ground_contact_point\<close>: the lengths, \<^verbatim>\<open>coxia_axis\<close>,
  the name, the id and the reference \<^verbatim>\<open>new_origin\<close> stay, and so does the mount origin
  object (coordinates and name), as does every object that existed before the call.
\<close>

theorem change_pose_frame:
  assumes "new_origin l < lim h"
  shows "case change_pose al be ga (h, l) of
           (outcome, h', l') \<Rightarrow>
             l'\<lparr>alpha := alpha l, beta := beta l, gamma := gamma l,
                all_points := all_points l,
                ground_contact_point := ground_contact_point l\<rparr> = l
             \<and> leg_a l' = leg_a l \<and> leg_b l' = leg_b l \<and> leg_c l' = leg_c l
             \<and> coxia_axis l' = coxia_axis l \<and> leg_name l' = leg_name l \<and> leg_id l' = leg_id l
             \<and> new_origin l' = new_origin l
             \<and> cells h' (new_origin l') = cells h (new_origin l)
             \<and> (\<forall>r<lim h. cells h' r = cells h r)"
proof (cases "pt_name (cells h (new_origin l))")
  case None
  show ?thesis
    using assms by (simp add: change_pose_origin_unnamed [OF None])
next
  case (Some n0)
  show ?thesis
  proof (cases "leg_name l")
    case None
    show ?thesis
      using assms by (simp add: change_pose_leg_unnamed [OF Some None])
  next
    case (Some n)
    obtain q0 q1 q2 q3 where
      q: "local_points (l\<lparr>alpha := al, beta := be, gamma := ga\<rparr>) = (q0, q1, q2, q3)"
      by (metis prod_cases4)
    show ?thesis
      using assms
      by (simp add: change_pose_named [OF \<open>pt_name (cells h (new_origin l)) = Some n0\<close> Some refl q refl refl]
          del: scan_lowest.simps)
  qed
qed

text \<open>
  C10, witness: the example leg, posed flat; \<open>gamma\<close> changes from 0 to 90.
\<close>

theorem change_pose_frame_witness:
  "new_origin example_leg < lim example_heap
   \<and> (case change_pose 0 0 90 (example_heap, example_leg) of
           (outcome, h', l') \<Rightarrow>
             l'\<lparr>alpha := alpha example_leg, beta := beta example_leg, gamma := gamma example_leg,
                all_points := all_points example_leg,
                ground_contact_point := ground_contact_point example_leg\<rparr> = example_leg
             \<and> leg_a l' = leg_a example_leg \<and> leg_b l' = leg_b example_leg
             \<and> leg_c l' = leg_c example_leg
             \<and> coxia_axis l' = coxia_axis example_leg \<and> leg_name l' = leg_name example_leg
             \<and> leg_id l' = leg_id example_leg
             \<and> new_origin l' = new_origin example_leg
             \<and> cells h' (new_origin l') = cells example_heap (new_origin example_leg)
             \<and> (\<forall>r<lim example_heap. cells h' r = cells example_heap r))
   \<and> gamma flat_leg = 90 \<and> gamma example_leg = 0"
proof -
  have v: "new_origin example_leg < lim example_heap"
    by (simp add: example_leg_eq example_heap_eq)
  have g: "gamma flat_leg = 90 \<and> gamma example_leg = 0"
    unfolding flat_leg_def flat_pose by (simp add: example_leg_eq)
  show ?thesis
    using v g change_pose_frame [OF v, of 0 0 90] by simp
qed

text \<open>
  C7: calling \<^verbatim>\<open>change_pose\<close> a second time with the same angles has the same outcome as
  the first call and leaves the same observable state: the same slots, the same point
  values (coordinates and names) in the same order, and the same ground contact.
\<close>

theorem change_pose_idempotent:
  assumes "refs_valid (h, l)"
  shows "fst (change_pose al be ga (snd (change_pose al be ga (h, l))))
           = fst (change_pose al be ga (h, l))
       \<and> view (snd (change_pose al be ga (snd (change_pose al be ga (h, l)))))
           = view (snd (change_pose al be ga (h, l)))"
proof -
  from assms have org: "new_origin l < lim h"
    by (simp add: refs_valid_def)
  define l1 where "l1 = l\<lparr>alpha := al, beta := be, gamma := ga\<rparr>"
  have l1_again: "l1\<lparr>alpha := al, beta := be, gamma := ga\<rparr> = l1"
    by (simp add: l1_def)
  have l1_fields: "new_origin l1 = new_origin l" "leg_name l1 = leg_name l"
    by (simp_all add: l1_def)
  show ?thesis
  proof (cases "pt_name (cells h (new_origin l))")
    case None
    define h1 where
      "h1 = h\<lparr>cells := (cells h)(lim h := cells h (new_origin l)), lim := Suc (lim h)\<rparr>"
    have first: "change_pose al be ga (h, l) = (Inl TypeError, h1, l1)"
      by (simp add: change_pose_origin_unnamed [OF None] h1_def l1_def)
    have "pt_name (cells h1 (new_origin l1)) = None"
      using None org by (simp add: h1_def l1_fields)
    from change_pose_origin_unnamed [OF this, of al be ga]
    obtain h2 where second: "change_pose al be ga (h1, l1) = (Inl TypeError, h2, l1)"
      and ext: "\<forall>r<lim h1. cells h2 r = cells h1 r"
      by (simp add: l1_again)
    have "refs_valid (h1, l1)"
      unfolding l1_def by (rule refs_valid_extend [OF assms]) (simp add: h1_def)
    from view_extend [OF this ext] show ?thesis
      by (simp add: first second)
  next
    case (Some n0)
    note n0 = Some
    show ?thesis
    proof (cases "leg_name l")
      case None
      define h1 where
        "h1 = h\<lparr>cells := (cells h)(lim h := (cells h (new_origin l))
                   \<lparr>pt_name := Some (n0 @ ''-body-contact'')\<rparr>), lim := Suc (lim h)\<rparr>"
      have first: "change_pose al be ga (h, l) = (Inl TypeError, h1, l1)"
        by (simp add: change_pose_leg_unnamed [OF n0 None] h1_def l1_def)
      have "pt_name (cells h1 (new_origin l1)) = Some n0"
        using n0 org by (simp add: h1_def l1_fields)
      moreover have "leg_name l1 = None"
        using None by (simp add: l1_fields)
      ultimately obtain h2 where second: "change_pose al be ga (h1, l1) = (Inl TypeError, h2, l1)"
        and ext: "\<forall>r<lim h1. cells h2 r = cells h1 r"
        using change_pose_leg_unnamed [of h1 l1 n0 al be ga] by (simp add: l1_again)
      have "refs_valid (h1, l1)"
        unfolding l1_def by (rule refs_valid_extend [OF assms]) (simp add: h1_def)
      from view_extend [OF this ext] show ?thesis
        by (simp add: first second)
    next
      case (Some n)
      note n = Some
      obtain q0 q1 q2 q3 where q: "local_points l1 = (q0, q1, q2, q3)"
        by (metis prod_cases4)
      define k where "k = lim h"
      define rs1 where "rs1 = [k, Suc k, Suc (Suc k), Suc (Suc (Suc k))]"
      define h1 where "h1 = h\<lparr>cells := (cells h)
            (lim h := (cells h (new_origin l))\<lparr>pt_name := Some (n0 @ ''-body-contact'')\<rparr>,
             Suc (lim h) := get_point_wrt q1 (new_frame h l1) (Some (n @ ''-coxia'')),
             Suc (Suc (lim h)) := get_point_wrt q2 (new_frame h l1) (Some (n @ ''-femur'')),
             Suc (Suc (Suc (lim h))) := get_point_wrt q3 (new_frame h l1) (Some (n @ ''-tibia''))),
           lim := Suc (Suc (Suc (Suc (lim h))))\<rparr>"
      define g1 where "g1 = scan_lowest h1 (rs1 ! 3) (rev rs1)"
      define l2 where "l2 = l1\<lparr>all_points := rs1, ground_contact_point := g1\<rparr>"
      have first: "change_pose al be ga (h, l) = (Inr (), h1, l2)"
        unfolding l2_def g1_def
        by (rule change_pose_named [OF n0 n l1_def q h1_def]) (simp add: rs1_def k_def)
      have l2_again: "l2\<lparr>alpha := al, beta := be, gamma := ga\<rparr> = l2"
        by (simp add: l2_def l1_def)
      have org1: "cells h1 (new_origin l2) = cells h (new_origin l)"
        using org by (simp add: h1_def l2_def l1_def)
      have n0': "pt_name (cells h1 (new_origin l2)) = Some n0"
        using n0 by (simp add: org1)
      have n': "leg_name l2 = Some n"
        using n by (simp add: l2_def l1_def)
      have q': "local_points l2 = (q0, q1, q2, q3)"
        using q by (simp add: l2_def local_points_angles)
      have nf: "new_frame h1 l2 = new_frame h l1"
        using org1 by (simp add: new_frame_def l2_def l1_fields)
      define f where "f = (\<lambda>r::nat. Suc (Suc (Suc (Suc r))))"
      define h2 where "h2 = h1\<lparr>cells := (cells h1)
            (lim h1 := (cells h1 (new_origin l2))\<lparr>pt_name := Some (n0 @ ''-body-contact'')\<rparr>,
             Suc (lim h1) := get_point_wrt q1 (new_frame h1 l2) (Some (n @ ''-coxia'')),
             Suc (Suc (lim h1)) := get_point_wrt q2 (new_frame h1 l2) (Some (n @ ''-femur'')),
             Suc (Suc (Suc (lim h1))) := get_point_wrt q3 (new_frame h1 l2) (Some (n @ ''-tibia''))),
           lim := Suc (Suc (Suc (Suc (lim h1))))\<rparr>"
      define g2 where "g2 = scan_lowest h2 (map f rs1 ! 3) (rev (map f rs1))"
      define l3 where "l3 = l2\<lparr>all_points := map f rs1, ground_contact_point := g2\<rparr>"
      have second: "change_pose al be ga (h1, l2) = (Inr (), h2, l3)"
        unfolding l3_def g2_def
        by (rule change_pose_named [OF n0' n' l2_again [symmetric] q' h2_def])
          (simp add: rs1_def k_def f_def h1_def)
      define b0 where
        "b0 = (cells h (new_origin l))\<lparr>pt_name := Some (n0 @ ''-body-contact'')\<rparr>"
      define b1 where "b1 = get_point_wrt q1 (new_frame h l1) (Some (n @ ''-coxia''))"
      define b2 where "b2 = get_point_wrt q2 (new_frame h l1) (Some (n @ ''-femur''))"
      define b3 where "b3 = get_point_wrt q3 (new_frame h l1) (Some (n @ ''-tibia''))"
      have c1: "cells h1 =
          (cells h)(k := b0, Suc k := b1, Suc (Suc k) := b2, Suc (Suc (Suc k)) := b3)"
        by (simp add: h1_def k_def b0_def b1_def b2_def b3_def)
      have lim1: "lim h1 = f k"
        by (simp add: h1_def k_def f_def)
      have c2: "cells h2 =
          (cells h1)(f k := b0, f (Suc k) := b1, f (Suc (Suc k)) := b2,
                     f (Suc (Suc (Suc k))) := b3)"
        unfolding h2_def lim1 org1 nf by (simp add: f_def b0_def b1_def b2_def b3_def)
      have same: "\<forall>r \<in> set rs1. cells h2 (f r) = cells h1 r"
        by (simp add: rs1_def c1 c2 f_def)
      have "g2 = scan_lowest h2 (f (rs1 ! 3)) (map f (rev rs1))"
        by (simp add: g2_def rs1_def rev_map)
      also have "\<dots> = f (scan_lowest h1 (rs1 ! 3) (rev rs1))"
        by (rule scan_lowest_shift) (use same in \<open>simp add: rs1_def\<close>)
      finally have g2: "g2 = f g1"
        by (simp add: g1_def)
      have g1_mem: "g1 \<in> set rs1"
        using scan_lowest_mem [of h1 "rs1 ! 3" "rev rs1"] by (auto simp add: g1_def rs1_def)
      have pts: "map (cells h2) (map f rs1) = map (cells h1) rs1"
        using same by simp
      have gc: "cells h2 g2 = cells h1 g1"
        using same g1_mem by (simp add: g2)
      have marks: "map (\<lambda>r. r = g2) (map f rs1) = map (\<lambda>r. r = g1) rs1"
        by (simp add: g2 f_def)
      have org2: "cells h2 (new_origin l2) = cells h1 (new_origin l2)"
        using org by (simp add: c2 f_def k_def l2_def l1_def)
      have "view (h2, l3) = view (h1, l2)"
        using pts gc marks org2 by (simp add: view_def l3_def) (simp add: l2_def)
      then show ?thesis
        by (simp add: first second)
    qed
  qed
qed

text \<open>
  C7, witness: the example leg posed flat twice.
\<close>

theorem change_pose_idempotent_witness:
  "refs_valid (example_heap, example_leg)
   \<and> fst (change_pose 0 0 90 (snd (change_pose 0 0 90 (example_heap, example_leg)))) = Inr ()
   \<and> view (snd (change_pose 0 0 90 (snd (change_pose 0 0 90 (example_heap, example_leg)))))
       = view (flat_heap, flat_leg)"
proof -
  have v: "refs_valid (example_heap, example_leg)"
    by (simp add: refs_valid_def example_leg_eq example_heap_eq)
  have pose: "change_pose 0 0 90 (example_heap, example_leg) = (Inr (), flat_heap, flat_leg)"
    by (simp add: flat_leg_def flat_heap_def flat_pose)
  show ?thesis
    using v change_pose_idempotent [OF v, of 0 0 90] by (simp add: pose)
qed

section \<open>\<^verbatim>\<open>update_leg_wrt\<close>\<close>

lemma update_points_lim: "lim (update_points fr height rs h) = lim h"
  by (induction rs arbitrary: h) (simp_all add: store_def)

lemma update_points_other:
  "r \<notin> set rs \<Longrightarrow> cells (update_points fr height rs h) r = cells h r"
  by (induction rs arbitrary: h) (auto simp add: store_def)

lemma update_points_distinct:
  "distinct rs \<Longrightarrow> r \<in> set rs \<Longrightarrow>
     cells (update_points fr height rs h) r = update_point_wrt fr height (cells h r)"
proof (induction rs arbitrary: h)
  case Nil
  then show ?case by simp
next
  case (Cons point rest)
  show ?case
  proof (cases "r = point")
    case True
    with Cons.prems have "r \<notin> set rest" by simp
    then show ?thesis
      using True by (simp add: update_points_other store_def)
  next
    case False
    with Cons.prems have "r \<in> set rest" "distinct rest" by simp_all
    then show ?thesis
      using False Cons.IH [of "store point (update_point_wrt fr height (cells h point)) h"]
      by (simp add: store_def)
  qed
qed

text \<open>
  C8 (as amended): on a Linkage whose stored points are distinct objects,
  \<^verbatim>\<open>update_leg_wrt\<close> replaces the value of each stored point by its re-expression in the
  frame with the height offset, changes no other object and no slot of the Linkage; the
  ground contact is the same object as before, and the mount origin keeps its value
  unless it is itself one of the stored points.
\<close>

theorem update_leg_wrt_frame:
  assumes "distinct (all_points l)"
  shows "case update_leg_wrt fr height (h, l) of
           (h', l') \<Rightarrow>
             l' = l \<and> lim h' = lim h
             \<and> (\<forall>r \<in> set (all_points l). cells h' r = update_point_wrt fr height (cells h r))
             \<and> (\<forall>r. r \<notin> set (all_points l) \<longrightarrow> cells h' r = cells h r)
             \<and> (new_origin l \<notin> set (all_points l)
                  \<longrightarrow> cells h' (new_origin l') = cells h (new_origin l))
             \<and> ground_contact_point l' = ground_contact_point l
             \<and> (ground_contact_point l \<in> set (all_points l)
                  \<longrightarrow> ground_contact_point l' \<in> set (all_points l'))"
  using assms
  by (simp add: update_leg_wrt_def update_points_lim update_points_other update_points_distinct)

lemma twin_leg_eq: "twin_leg = example_leg\<lparr>all_points := [2, 2, 3, 4]\<rparr>"
  by (simp add: twin_leg_def setattr_p_def example_leg_eq)

lemma origin_leg_eq: "origin_leg = example_leg\<lparr>all_points := [0, 2, 3, 4]\<rparr>"
  by (simp add: origin_leg_def setattr_p_def example_leg_eq)

text \<open>
  C8, counterexample: after \<^verbatim>\<open>leg.p0 = leg.p1\<close> the loop of \<^verbatim>\<open>update_leg_wrt\<close> visits the
  coxia object twice, so with the identity frame and height 1 it ends at \<open>z = 2\<close>, not at
  the \<open>z = 1\<close> of one re-expression; and after \<^verbatim>\<open>leg.p0 = leg.new_origin\<close> the call
  moves the mount origin from \<open>z = 0\<close> to \<open>z = 1\<close>.
\<close>

theorem update_leg_wrt_aliasing_counterexample:
  "setattr_p P0 (all_points example_leg ! 1) example_leg = Inr twin_leg
   \<and> all_points twin_leg = [2, 2, 3, 4]
   \<and> pt_z (update_point_wrt identity_frame 1 (cells example_heap 2)) = 1
   \<and> pt_z (cells (fst (update_leg_wrt identity_frame 1 (example_heap, twin_leg))) 2) = 2
   \<and> setattr_p P0 (new_origin example_leg) example_leg = Inr origin_leg
   \<and> pt_z (cells example_heap (new_origin origin_leg)) = 0
   \<and> pt_z (cells (fst (update_leg_wrt identity_frame 1 (example_heap, origin_leg)))
             (new_origin origin_leg)) = 1"
  unfolding twin_leg_eq origin_leg_eq
  by (simp add: setattr_p_def example_leg_eq example_heap_eq update_leg_wrt_def store_def
      update_point_wrt_def identity_frame_def heap_of_def named_origin_def)

text \<open>
  C8, witness: the example leg, shifted up by 1: the tip goes from \<open>z = -1\<close> to \<open>z = 0\<close>.
\<close>

theorem update_leg_wrt_frame_witness:
  "distinct (all_points example_leg)
   \<and> (case update_leg_wrt identity_frame 1 (example_heap, example_leg) of
           (h', l') \<Rightarrow>
             l' = example_leg \<and> lim h' = lim example_heap
             \<and> (\<forall>r \<in> set (all_points example_leg).
                   cells h' r = update_point_wrt identity_frame 1 (cells example_heap r))
             \<and> (\<forall>r. r \<notin> set (all_points example_leg) \<longrightarrow> cells h' r = cells example_heap r)
             \<and> (new_origin example_leg \<notin> set (all_points example_leg)
                  \<longrightarrow> cells h' (new_origin l') = cells example_heap (new_origin example_leg))
             \<and> ground_contact_point l' = ground_contact_point example_leg
             \<and> (ground_contact_point example_leg \<in> set (all_points example_leg)
                  \<longrightarrow> ground_contact_point l' \<in> set (all_points l')))
   \<and> new_origin example_leg \<notin> set (all_points example_leg)
   \<and> ground_contact_point example_leg \<in> set (all_points example_leg)
   \<and> pt_z (cells (fst (update_leg_wrt identity_frame 1 (example_heap, example_leg))) 4) = 0"
proof -
  have d: "distinct (all_points example_leg)"
    by (simp add: example_leg_eq)
  have m: "new_origin example_leg \<notin> set (all_points example_leg)
      \<and> ground_contact_point example_leg \<in> set (all_points example_leg)"
    by (simp add: example_leg_eq)
  have z: "pt_z (cells (fst (update_leg_wrt identity_frame 1 (example_heap, example_leg))) 4) = 0"
    by (simp add: example_leg_eq example_heap_eq update_leg_wrt_def store_def
      update_point_wrt_def identity_frame_def)
  show ?thesis
    using d m z update_leg_wrt_frame [OF d, where fr = identity_frame and height = 1 and h = example_heap]
    by simp
qed

end
